theory Spec2Isabelle
  imports Complex_Main
begin

section \<open>Numbers, vectors and matrices\<close>

text \<open>
  The conic constructors of \<^verbatim>\<open>src/element/conic.js\<close> compute with JavaScript numbers on
  arrays of length three and on arrays of three such arrays. Numbers are modelled by the
  reals: every statement below is about the exact-arithmetic reading of the code, rounding is
  not modelled, and neither are \<^verbatim>\<open>NaN\<close> and the infinities (the code below never tests for
  them): where the program would divide by zero or take the square root of a negative number,
  the model has the value of the total functions of the logic, and no statement below rests
  on such a value. Arrays are lists, indexed from 0, and an in-place assignment
  \<^verbatim>\<open>A[i][j] = x\<close> is a list update whose result is passed on.
\<close>

type_synonym vec = "real list"
type_synonym mat = "real list list"

datatype error = TypeError

definition set2 :: "mat \<Rightarrow> nat \<Rightarrow> nat \<Rightarrow> real \<Rightarrow> mat" where
  \<comment> \<open>the assignment \<^verbatim>\<open>A[i][j] = x\<close>\<close>
  "set2 A i j x = A[i := (A ! i)[j := x]]"

definition identity3 :: mat where
  "identity3 = [[1, 0, 0], [0, 1, 0], [0, 0, 1]]"

definition zero3 :: mat where
  \<comment> \<open>the fresh matrix \<^verbatim>\<open>mat\<close> of \<^verbatim>\<open>degconic\<close> and \<^verbatim>\<open>fitConic\<close>\<close>
  "zero3 = [[0, 0, 0], [0, 0, 0], [0, 0, 0]]"

definition mat3 :: "mat \<Rightarrow> bool" where
  \<comment> \<open>the shape of every matrix the constructors handle: three rows of three numbers\<close>
  "mat3 A = (length A = 3 \<and> length (A ! 0) = 3 \<and> length (A ! 1) = 3 \<and> length (A ! 2) = 3)"

subsection \<open>The linear algebra of \<^verbatim>\<open>math/math\<close>\<close>

definition innerProduct :: "vec \<Rightarrow> vec \<Rightarrow> real" where
  \<comment> \<open>Modelled from the spec: \<^verbatim>\<open>Mat.innerProduct\<close> is not in the source file; the spec lists it
      among the generic 3-vector primitives (inner product of two 3-vectors).\<close>
  "innerProduct u w = sum_list (map (\<lambda>k. u ! k * w ! k) [0..<3])"

definition crossProduct :: "vec \<Rightarrow> vec \<Rightarrow> vec" where
  \<comment> \<open>Modelled from the spec: \<^verbatim>\<open>Mat.crossProduct\<close> is not in the source file; the spec names it
      as the cross product of homogeneous 3-vectors (the line through two points).\<close>
  "crossProduct u w =
     [u ! 1 * w ! 2 - u ! 2 * w ! 1,
      u ! 2 * w ! 0 - u ! 0 * w ! 2,
      u ! 0 * w ! 1 - u ! 1 * w ! 0]"

definition matVecMult :: "mat \<Rightarrow> vec \<Rightarrow> vec" where
  \<comment> \<open>Modelled from the spec: \<^verbatim>\<open>Mat.matVecMult\<close> is not in the source file; the spec lists it
      as the 3\<times>3 by 3-vector product.\<close>
  "matVecMult A u = map (\<lambda>i. innerProduct (A ! i) u) [0..<3]"

definition matMatMult :: "mat \<Rightarrow> mat \<Rightarrow> mat" where
  \<comment> \<open>Modelled from the spec: \<^verbatim>\<open>Mat.matMatMult\<close> is not in the source file; the spec lists it
      as the 3\<times>3 matrix product.\<close>
  "matMatMult A B =
     map (\<lambda>i. map (\<lambda>j. sum_list (map (\<lambda>k. A ! i ! k * B ! k ! j) [0..<3])) [0..<3]) [0..<3]"

definition transpose_mat :: "mat \<Rightarrow> mat" where
  \<comment> \<open>Modelled from the spec: \<^verbatim>\<open>Mat.transpose\<close> is not in the source file; the spec lists it
      as the transpose of a 3\<times>3 matrix.\<close>
  "transpose_mat A = map (\<lambda>i. map (\<lambda>j. A ! j ! i) [0..<3]) [0..<3]"

section \<open>The general conic: building the quadratic form\<close>

definition sym_mat :: "mat \<Rightarrow> mat" where
  \<comment> \<open>\<^verbatim>\<open>sym\<close>: two double loops that change \<open>A\<close> in place; the first adds the mirrored entry
      to the diagonal and the upper triangle, the second copies the upper triangle down.\<close>
  "sym_mat A =
     (let A1 = fold (\<lambda>i A. fold (\<lambda>j A. set2 A i j (A ! i ! j + A ! j ! i)) [i..<3] A) [0..<3] A;
          A2 = fold (\<lambda>i A. fold (\<lambda>j A. set2 A i j (A ! j ! i)) [0..<i] A) [0..<3] A1
      in A2)"

definition degconic :: "vec \<Rightarrow> vec \<Rightarrow> mat" where
  \<comment> \<open>\<^verbatim>\<open>degconic(v, w) = sym(v * w^t)\<close>\<close>
  "degconic v w =
     sym_mat (fold (\<lambda>i A. fold (\<lambda>j A. set2 A i j (v ! i * w ! j)) [0..<3] A) [0..<3] zero3)"

definition fitConic :: "mat \<Rightarrow> mat \<Rightarrow> vec \<Rightarrow> mat" where
  \<comment> \<open>\<^verbatim>\<open>fitConic(A, B, p) = (p^t*B*p)*A - (p^t*A*p)*B\<close>\<close>
  "fitConic A B p =
     (let pBp = innerProduct p (matVecMult B p);
          pAp = innerProduct p (matVecMult A p)
      in fold (\<lambda>i C. fold (\<lambda>j C. set2 C i j (pBp * A ! i ! j - pAp * B ! i ! j)) [0..<3] C)
           [0..<3] zero3)"

section \<open>The general conic: state and evaluator\<close>

text \<open>
  \<^verbatim>\<open>createConic\<close> is given five points or six coefficients. What \<^verbatim>\<open>polarForm\<close> reads of
  them at a call are the current homogeneous coordinates \<^verbatim>\<open>points[i].coords.usrCoords\<close> of
  the points, or the current values of the six parents (each a number or a function
  returning one).
\<close>

datatype conic_inputs = GivenByPoints "vec list" | GivenByCoefficients "real list"

text \<open>
  The variables of the closure that outlive a call of \<^verbatim>\<open>polarForm\<close>, and the field
  \<^verbatim>\<open>curve.quadraticform\<close>. \<^verbatim>\<open>eigen\<close> and the field are undefined until the first update;
  \<^verbatim>\<open>a\<close>, \<^verbatim>\<open>b\<close>, \<^verbatim>\<open>c\<close> are undefined until then as well, and are read only after
  \<^verbatim>\<open>eigen[0][1][1]\<close>, whose read fails first. The temporaries \<^verbatim>\<open>p\<close>, \<^verbatim>\<open>c1\<close>, \<^verbatim>\<open>c2\<close> are
  written before each read and are not part of the state.
\<close>

record conic_state =
  conic_M :: mat
  conic_quadraticform :: "mat option"
  conic_eigen :: "(mat \<times> mat) option"
  conic_rotationMatrix :: mat
  conic_a :: real
  conic_b :: real
  conic_c :: real

definition conic_init :: conic_state where
  "conic_init =
     \<lparr>conic_M = identity3, conic_quadraticform = None, conic_eigen = None,
      conic_rotationMatrix = identity3, conic_a = 0, conic_b = 0, conic_c = 0\<rparr>"

definition definingMat :: "real list \<Rightarrow> mat" where
  \<comment> \<open>the values of the six functions stored in \<^verbatim>\<open>definingMat\<close>; the entries below the
      diagonal stay 0 and are never called\<close>
  "definingMat parents =
     [[parents ! 2, parents ! 4, parents ! 5],
      [0, parents ! 0, parents ! 3],
      [0, 0, parents ! 1]]"

definition conic_buildM :: "conic_inputs \<Rightarrow> mat \<Rightarrow> mat" where
  \<comment> \<open>the first part of the update: the new value of \<open>M\<close>, from the five points (a fresh
      matrix) or from the six coefficients (written into the old \<open>M\<close>)\<close>
  "conic_buildM inp M0 =
     (case inp of
        GivenByPoints p \<Rightarrow>
          (let c1 = degconic (crossProduct (p ! 0) (p ! 1)) (crossProduct (p ! 2) (p ! 3));
               c2 = degconic (crossProduct (p ! 0) (p ! 2)) (crossProduct (p ! 1) (p ! 3))
           in fitConic c1 c2 (p ! 4))
      | GivenByCoefficients parents \<Rightarrow>
          fold (\<lambda>i M. fold (\<lambda>j M.
                  (let M1 = set2 M i j (definingMat parents ! i ! j)
                   in if j > i then set2 M1 j i (M1 ! i ! j) else M1)) [i..<3] M) [0..<3] M0)"

definition scaleEigenvalues :: "mat \<Rightarrow> mat" where
  \<comment> \<open>"Scale the Eigenvalues such that the first Eigenvalue is positive"\<close>
  "scaleEigenvalues E =
     (if E ! 0 ! 0 < 0 then
        (let E1 = set2 E 0 0 (E ! 0 ! 0 * (-1));
             E2 = set2 E1 1 1 (E1 ! 1 ! 1 * (-1));
             E3 = set2 E2 2 2 (E2 ! 2 ! 2 * (-1))
         in E3)
      else E)"

definition conic_update :: "(mat \<Rightarrow> mat \<times> mat) \<Rightarrow> conic_inputs \<Rightarrow> conic_state \<Rightarrow> conic_state" where
  \<comment> \<open>the body of \<^verbatim>\<open>if (!suspendUpdate)\<close>. \<^verbatim>\<open>Numerics.Jacobi\<close> is not in the source file and is
      a parameter: it returns the pair \<^verbatim>\<open>[A, V]\<close> of the diagonalised matrix and the
      eigenvectors. The loop headed "Normalize the Eigenvectors" only computes the local
      \<^verbatim>\<open>len\<close> (its division is commented out) and changes nothing.\<close>
  "conic_update Jacobi inp s =
     (let M = conic_buildM inp (conic_M s);
          eigen = Jacobi M;
          E = scaleEigenvalues (fst eigen);
          V = snd eigen
      in s\<lparr>conic_M := M,
           conic_quadraticform := Some M,
           conic_eigen := Some (E, V),
           conic_rotationMatrix := V,
           conic_c := sqrt \<bar>E ! 0 ! 0\<bar>,
           conic_a := sqrt \<bar>E ! 1 ! 1\<bar>,
           conic_b := sqrt \<bar>E ! 2 ! 2\<bar>\<rparr>)"

definition conic_branch :: "conic_state \<Rightarrow> mat \<Rightarrow> real \<Rightarrow> vec option" where
  \<comment> \<open>the \<^verbatim>\<open>if / else if / else if\<close> chain that assigns \<^verbatim>\<open>v\<close>; \<open>None\<close> when no branch is
      taken and \<^verbatim>\<open>v\<close> stays undefined\<close>
  "conic_branch s E phi =
     (if E ! 1 ! 1 \<le> 0 \<and> E ! 2 ! 2 \<le> 0 then
        Some (matVecMult (conic_rotationMatrix s)
                [1 / conic_c s, cos phi / conic_a s, sin phi / conic_b s])
      else if E ! 1 ! 1 \<le> 0 \<and> E ! 2 ! 2 > 0 then
        Some (matVecMult (conic_rotationMatrix s)
                [cos phi / conic_c s, 1 / conic_a s, sin phi / conic_b s])
      else if E ! 2 ! 2 < 0 then
        Some (matVecMult (conic_rotationMatrix s)
                [sin phi / conic_c s, cos phi / conic_a s, 1 / conic_b s])
      else None)"

definition normalize_w :: "vec \<Rightarrow> vec" where
  \<comment> \<open>\<^verbatim>\<open>v[1] /= v[0]; v[2] /= v[0]; v[0] = 1.0\<close>\<close>
  "normalize_w v =
     (let v1 = v[1 := v ! 1 / v ! 0];
          v2 = v1[2 := v1 ! 2 / v1 ! 0]
      in v2[0 := 1])"

definition conic_polarForm ::
    "(mat \<Rightarrow> mat \<times> mat) \<Rightarrow> conic_inputs \<Rightarrow> real \<Rightarrow> bool \<Rightarrow> conic_state \<Rightarrow> (error + vec) \<times> conic_state" where
  \<comment> \<open>\<^verbatim>\<open>polarForm(phi, suspendUpdate)\<close> of \<^verbatim>\<open>createConic\<close>: the result, or the TypeError of
      reading an index of \<^verbatim>\<open>undefined\<close>, and the state the call leaves\<close>
  "conic_polarForm Jacobi inp phi suspendUpdate s =
     (let s1 = (if \<not> suspendUpdate then conic_update Jacobi inp s else s)
      in case conic_eigen s1 of
           None \<Rightarrow> (Inl TypeError, s1)
         | Some eigen \<Rightarrow>
             (case conic_branch s1 (fst eigen) phi of
                None \<Rightarrow> (Inl TypeError, s1)
              | Some v \<Rightarrow> (Inr (normalize_w v), s1)))"

definition component :: "nat \<Rightarrow> (error + vec) \<times> 's \<Rightarrow> (error + real) \<times> 's" where
  \<comment> \<open>\<^verbatim>\<open>polarForm(phi, suspendUpdate)[k]\<close>, as in \<^verbatim>\<open>curve.X\<close> (k = 1) and \<^verbatim>\<open>curve.Y\<close> (k = 2)\<close>
  "component k r = (case fst r of Inl e \<Rightarrow> (Inl e, snd r) | Inr v \<Rightarrow> (Inr (v ! k), snd r))"

definition conic_X ::
    "(mat \<Rightarrow> mat \<times> mat) \<Rightarrow> conic_inputs \<Rightarrow> real \<Rightarrow> bool \<Rightarrow> conic_state \<Rightarrow> (error + real) \<times> conic_state" where
  "conic_X Jacobi inp phi suspendUpdate s = component 1 (conic_polarForm Jacobi inp phi suspendUpdate s)"

definition conic_Y ::
    "(mat \<Rightarrow> mat \<times> mat) \<Rightarrow> conic_inputs \<Rightarrow> real \<Rightarrow> bool \<Rightarrow> conic_state \<Rightarrow> (error + real) \<times> conic_state" where
  "conic_Y Jacobi inp phi suspendUpdate s = component 2 (conic_polarForm Jacobi inp phi suspendUpdate s)"

subsection \<open>The pencil of the five-point construction, as the specification words it\<close>

definition quadform :: "mat \<Rightarrow> vec \<Rightarrow> real" where
  \<comment> \<open>\<open>p\<^sup>t M p\<close>\<close>
  "quadform A p = innerProduct p (matVecMult A p)"

definition outer :: "vec \<Rightarrow> vec \<Rightarrow> mat" where
  \<comment> \<open>\<open>v \<otimes> w\<close>\<close>
  "outer v w = [[v ! 0 * w ! 0, v ! 0 * w ! 1, v ! 0 * w ! 2],
                [v ! 1 * w ! 0, v ! 1 * w ! 1, v ! 1 * w ! 2],
                [v ! 2 * w ! 0, v ! 2 * w ! 1, v ! 2 * w ! 2]]"

definition spec_sym :: "mat \<Rightarrow> mat" where
  \<comment> \<open>\<open>sym(A) := A + A\<^sup>t\<close>\<close>
  "spec_sym A = map2 (map2 (+)) A (transpose_mat A)"

definition spec_pencil :: "vec \<Rightarrow> vec \<Rightarrow> vec \<Rightarrow> vec \<Rightarrow> vec \<Rightarrow> mat" where
  \<comment> \<open>\<open>M = (p4\<^sup>t c2 p4)\<cdot>c1 - (p4\<^sup>t c1 p4)\<cdot>c2\<close> with \<open>c1 = sym(l01 \<otimes> l23)\<close>,
      \<open>c2 = sym(l02 \<otimes> l13)\<close> and \<open>lij = pi \<times> pj\<close>\<close>
  "spec_pencil p0 p1 p2 p3 p4 =
     (let c1 = spec_sym (outer (crossProduct p0 p1) (crossProduct p2 p3));
          c2 = spec_sym (outer (crossProduct p0 p2) (crossProduct p1 p3))
      in map2 (map2 (-)) (map (map ((*) (quadform c2 p4))) c1)
                         (map (map ((*) (quadform c1 p4))) c2))"

definition symmetric3 :: "mat \<Rightarrow> bool" where
  \<comment> \<open>\<open>M[i][j] = M[j][i]\<close> for all \<open>i, j\<close> in \<open>{0, 1, 2}\<close>\<close>
  "symmetric3 A = (A ! 0 ! 1 = A ! 1 ! 0 \<and> A ! 0 ! 2 = A ! 2 ! 0 \<and> A ! 1 ! 2 = A ! 2 ! 1)"

definition jacobi_of_diagonal :: "mat \<Rightarrow> mat \<times> mat" where
  \<comment> \<open>Modelled from the spec: \<^verbatim>\<open>Numerics.Jacobi\<close> is not in the source file. The spec describes
      it as the symmetric eigendecomposition "returning eigenvalues and matching eigenvectors
      as a rotation matrix"; for a matrix that is diagonal already this is the matrix itself
      with the unit vectors. It is used on diagonal matrices only, to instantiate the
      parameter of \<open>conic_update\<close> at concrete inputs.\<close>
  "jacobi_of_diagonal A = (A, identity3)"

section \<open>Ellipse and hyperbola: state and evaluator\<close>

type_synonym point = "real \<times> real"

definition pX :: "point \<Rightarrow> real" where
  \<comment> \<open>\<^verbatim>\<open>P.X()\<close>\<close>
  "pX P = fst P"

definition pY :: "point \<Rightarrow> real" where
  \<comment> \<open>\<^verbatim>\<open>P.Y()\<close>\<close>
  "pY P = snd P"

definition Dist :: "point \<Rightarrow> point \<Rightarrow> real" where
  \<comment> \<open>Modelled from the spec: \<^verbatim>\<open>Dist\<close> belongs to the point element, which is not in the
      source file; the spec gives points a \<^verbatim>\<open>distanceTo(other)\<close>, the Euclidean distance.\<close>
  "Dist P Q = sqrt ((pX P - pX Q) * (pX P - pX Q) + (pY P - pY Q) * (pY P - pY Q))"

definition atan2 :: "real \<Rightarrow> real \<Rightarrow> real" where
  \<comment> \<open>\<^verbatim>\<open>Math.atan2(y, x)\<close> of the language on the reals: the angle of the point \<open>(x, y)\<close>
      in \<open>(-\<pi>, \<pi>]\<close>\<close>
  "atan2 y x =
     (if x > 0 then arctan (y / x)
      else if x < 0 \<and> y \<ge> 0 then arctan (y / x) + pi
      else if x < 0 then arctan (y / x) - pi
      else if y > 0 then pi / 2
      else if y < 0 then - (pi / 2)
      else 0)"

text \<open>
  The third parent of an ellipse or a hyperbola is the length of the major axis (a number
  or a function returning one; its current value) or a point on the curve.
\<close>

datatype third_parent = AxisLength real | CurvePoint point

text \<open>What a call reads of the parents: the current positions of the foci \<^verbatim>\<open>F[0]\<close>,
  \<^verbatim>\<open>F[1]\<close> and the third parent.\<close>

record focal_inputs =
  foc_F0 :: point
  foc_F1 :: point
  foc_third :: third_parent

text \<open>The closure variable \<^verbatim>\<open>rotationMatrix\<close> and the field \<^verbatim>\<open>curve.quadraticform\<close> of an
  ellipse, a hyperbola or a parabola; both are undefined until the first update.\<close>

record focal_state =
  rotationMatrix :: "mat option"
  quadraticform :: "mat option"

definition focal_init :: focal_state where
  "focal_init = \<lparr>rotationMatrix = None, quadraticform = None\<rparr>"

definition ellipse_majorAxis :: "focal_inputs \<Rightarrow> real" where
  "ellipse_majorAxis inp =
     (case foc_third inp of
        AxisLength r \<Rightarrow> r
      | CurvePoint C \<Rightarrow> Dist C (foc_F0 inp) + Dist C (foc_F1 inp))"

definition hyperbola_majorAxis :: "focal_inputs \<Rightarrow> real" where
  "hyperbola_majorAxis inp =
     (case foc_third inp of
        AxisLength r \<Rightarrow> r
      | CurvePoint C \<Rightarrow> Dist C (foc_F0 inp) - Dist C (foc_F1 inp))"

definition midpoint_X :: "focal_inputs \<Rightarrow> real" where
  \<comment> \<open>\<^verbatim>\<open>M.X()\<close> of the midpoint \<open>M\<close> of the foci\<close>
  "midpoint_X inp = (pX (foc_F0 inp) + pX (foc_F1 inp)) * 0.5"

definition midpoint_Y :: "focal_inputs \<Rightarrow> real" where
  "midpoint_Y inp = (pY (foc_F0 inp) + pY (foc_F1 inp)) * 0.5"

definition transformFunc :: "focal_inputs \<Rightarrow> mat" where
  \<comment> \<open>\<^verbatim>\<open>transformFunc\<close> of \<^verbatim>\<open>createEllipse\<close>; that of \<^verbatim>\<open>createHyperbola\<close> is the same
      but for the local names \<^verbatim>\<open>co\<close> and \<^verbatim>\<open>si\<close>\<close>
  "transformFunc inp =
     (let ax = pX (foc_F0 inp); ay = pY (foc_F0 inp);
          bx = pX (foc_F1 inp); by = pY (foc_F1 inp);
          sg = (if bx - ax > 0 then 1 else - 1 :: real);
          beta = (if \<bar>bx - ax\<bar> > 0.0000001
                  then atan2 (by - ay) (bx - ax) + (if sg < 0 then pi else 0)
                  else (if by - ay > 0 then 0.5 else - 0.5) * pi);
          co = cos beta;
          si = sin beta
      in [[1, 0, 0],
          [midpoint_X inp, co, - si],
          [midpoint_Y inp, si, co]])"

definition transformMat :: "mat \<Rightarrow> real \<Rightarrow> real \<Rightarrow> mat" where
  \<comment> \<open>the nine assignments to \<^verbatim>\<open>transformMat\<close>, which starts as the identity, in the
      order of the source\<close>
  "transformMat R mx my =
     fold (\<lambda>(i, j, x) T. set2 T i j x)
       [(0, 0, R ! 0 ! 0),
        (0, 1, 0),
        (0, 2, 0),
        (1, 0, mx * (1 - R ! 1 ! 1) + my * R ! 1 ! 2),
        (1, 1, R ! 1 ! 1),
        (1, 2, R ! 2 ! 1),
        (2, 0, my * (1 - R ! 1 ! 1) - mx * R ! 1 ! 2),
        (2, 1, R ! 1 ! 2),
        (2, 2, R ! 2 ! 2)]
       identity3"

definition apply_rotation :: "mat option \<Rightarrow> vec \<Rightarrow> error + vec" where
  \<comment> \<open>\<^verbatim>\<open>Mat.matVecMult(rotationMatrix, w)\<close>; while \<^verbatim>\<open>rotationMatrix\<close> is undefined the read
      of its rows is a TypeError\<close>
  "apply_rotation R w = (case R of None \<Rightarrow> Inl TypeError | Some R' \<Rightarrow> Inr (matVecMult R' w))"

definition ellipse_polarForm ::
    "focal_inputs \<Rightarrow> real \<Rightarrow> bool \<Rightarrow> focal_state \<Rightarrow> (error + vec) \<times> focal_state" where
  \<comment> \<open>\<^verbatim>\<open>polarForm(phi, suspendUpdate)\<close> of \<^verbatim>\<open>createEllipse\<close>\<close>
  "ellipse_polarForm inp phi suspendUpdate s =
     (let a = ellipse_majorAxis inp * 0.5;
          aa = a * a;
          e = Dist (foc_F1 inp) (foc_F0 inp) * 0.5;
          bb = aa - e * e;
          b = sqrt bb;
          s1 = (if \<not> suspendUpdate then
                  (let R = transformFunc inp;
                       mx = midpoint_X inp;
                       my = midpoint_Y inp;
                       T = transformMat R mx my
                   in s\<lparr>rotationMatrix := Some R,
                        quadraticform := Some
                          (matMatMult (transpose_mat T)
                             (matMatMult
                                [[- 1 + mx * mx / (a * a) + my * my / bb, - mx / aa, - mx / bb],
                                 [- mx / aa, 1 / aa, 0],
                                 [- my / bb, 0, 1 / bb]] T))\<rparr>)
                else s)
      in (apply_rotation (rotationMatrix s1) [1, a * cos phi, b * sin phi], s1))"

definition hyperbola_polarForm ::
    "focal_inputs \<Rightarrow> real \<Rightarrow> bool \<Rightarrow> focal_state \<Rightarrow> (error + vec) \<times> focal_state" where
  \<comment> \<open>\<^verbatim>\<open>polarForm(phi, suspendUpdate)\<close> of \<^verbatim>\<open>createHyperbola\<close>\<close>
  "hyperbola_polarForm inp phi suspendUpdate s =
     (let a = hyperbola_majorAxis inp * 0.5;
          aa = a * a;
          e = Dist (foc_F1 inp) (foc_F0 inp) * 0.5;
          b = sqrt (- a * a + e * e);
          bb = b * b;
          s1 = (if \<not> suspendUpdate then
                  (let R = transformFunc inp;
                       mx = midpoint_X inp;
                       my = midpoint_Y inp;
                       T = transformMat R mx my
                   in s\<lparr>rotationMatrix := Some R,
                        quadraticform := Some
                          (matMatMult (transpose_mat T)
                             (matMatMult
                                [[- 1 + mx * mx / aa + my * my / bb, - mx / aa, my / bb],
                                 [- mx / aa, 1 / aa, 0],
                                 [my / bb, 0, - 1 / bb]] T))\<rparr>)
                else s)
      in (apply_rotation (rotationMatrix s1) [1, a / cos phi, b * tan phi], s1))"

definition ellipse_X :: "focal_inputs \<Rightarrow> real \<Rightarrow> bool \<Rightarrow> focal_state \<Rightarrow> (error + real) \<times> focal_state" where
  "ellipse_X inp phi suspendUpdate s = component 1 (ellipse_polarForm inp phi suspendUpdate s)"

definition ellipse_Y :: "focal_inputs \<Rightarrow> real \<Rightarrow> bool \<Rightarrow> focal_state \<Rightarrow> (error + real) \<times> focal_state" where
  "ellipse_Y inp phi suspendUpdate s = component 2 (ellipse_polarForm inp phi suspendUpdate s)"

definition hyperbola_X :: "focal_inputs \<Rightarrow> real \<Rightarrow> bool \<Rightarrow> focal_state \<Rightarrow> (error + real) \<times> focal_state" where
  "hyperbola_X inp phi suspendUpdate s = component 1 (hyperbola_polarForm inp phi suspendUpdate s)"

definition hyperbola_Y :: "focal_inputs \<Rightarrow> real \<Rightarrow> bool \<Rightarrow> focal_state \<Rightarrow> (error + real) \<times> focal_state" where
  "hyperbola_Y inp phi suspendUpdate s = component 2 (hyperbola_polarForm inp phi suspendUpdate s)"

section \<open>Parabola: state and evaluator\<close>

text \<open>
  What a call reads of the parents of a parabola: the homogeneous coordinates
  \<^verbatim>\<open>F1.coords.usrCoords\<close> of the focus, the coefficients \<^verbatim>\<open>l.stdform\<close> of the directrix and
  its slope \<^verbatim>\<open>l.getSlope()\<close>, which is \<open>None\<close> when the slope is infinite (the arc tangent
  is then \<open>\<pi>/2\<close>). \<^verbatim>\<open>Geometry.meetLineLine\<close> is not in the source file and is a parameter
  of the definitions below, from two lines to the coordinates of the point where they meet.
\<close>

record parabola_inputs =
  par_F1 :: vec
  par_stdform :: vec
  par_slope :: "real option"

definition usrX :: "vec \<Rightarrow> real" where
  \<comment> \<open>Modelled from the spec: \<^verbatim>\<open>X()\<close> of a point is not in the source file; homogeneous
      coordinates are ordered \<open>(w, x, y)\<close>, so it is the entry 1 of \<^verbatim>\<open>usrCoords\<close>.\<close>
  "usrX u = u ! 1"

definition usrY :: "vec \<Rightarrow> real" where
  \<comment> \<open>Modelled from the spec: as \<open>usrX\<close>, the entry 2 of \<^verbatim>\<open>usrCoords\<close>.\<close>
  "usrY u = u ! 2"

definition parabola_M :: "(vec \<Rightarrow> vec \<Rightarrow> vec) \<Rightarrow> parabola_inputs \<Rightarrow> vec" where
  \<comment> \<open>the coordinates of the point \<open>M\<close>, by the function given to \<^verbatim>\<open>board.create\<close>\<close>
  "parabola_M meetLineLine inp =
     (let v = [0, par_stdform inp ! 1, par_stdform inp ! 2];
          v' = crossProduct v (par_F1 inp)
      in meetLineLine v' (par_stdform inp))"

definition atan_slope :: "real option \<Rightarrow> real" where
  \<comment> \<open>\<^verbatim>\<open>Math.atan(l.getSlope())\<close>\<close>
  "atan_slope m = (case m of None \<Rightarrow> pi / 2 | Some r \<Rightarrow> arctan r)"

definition parabola_transformFunc :: "(vec \<Rightarrow> vec \<Rightarrow> vec) \<Rightarrow> parabola_inputs \<Rightarrow> mat" where
  \<comment> \<open>\<^verbatim>\<open>transformFunc\<close> of \<^verbatim>\<open>createParabola\<close>\<close>
  "parabola_transformFunc meetLineLine inp =
     (let M = parabola_M meetLineLine inp;
          F1 = par_F1 inp;
          beta0 = atan_slope (par_slope inp);
          x = (usrX M + usrX F1) * 0.5;
          y = (usrY M + usrY F1) * 0.5;
          beta = beta0 + (if usrY F1 - usrY M < 0 \<or> (usrY F1 = usrY M \<and> usrX F1 > usrX M)
                          then pi else 0)
      in [[1, 0, 0],
          [x * (1 - cos beta) + y * sin beta, cos beta, - sin beta],
          [y * (1 - cos beta) - x * sin beta, sin beta, cos beta]])"

definition parabola_e :: "(vec \<Rightarrow> vec \<Rightarrow> vec) \<Rightarrow> parabola_inputs \<Rightarrow> real" where
  \<comment> \<open>\<^verbatim>\<open>e = M.Dist(F1) * 0.5\<close>\<close>
  "parabola_e meetLineLine inp =
     (let M = parabola_M meetLineLine inp; F1 = par_F1 inp
      in Dist (usrX M, usrY M) (usrX F1, usrY F1) * 0.5)"

definition parabola_polarForm ::
    "(vec \<Rightarrow> vec \<Rightarrow> vec) \<Rightarrow> parabola_inputs \<Rightarrow> real \<Rightarrow> bool \<Rightarrow> focal_state
       \<Rightarrow> (error + vec) \<times> focal_state" where
  \<comment> \<open>\<^verbatim>\<open>polarForm(t, suspendUpdate)\<close> of \<^verbatim>\<open>createParabola\<close>\<close>
  "parabola_polarForm meetLineLine inp t suspendUpdate s =
     (let M = parabola_M meetLineLine inp;
          F1 = par_F1 inp;
          e = parabola_e meetLineLine inp;
          e4 = e * 4;
          a = (usrX M + usrX F1) * 0.5;
          b = (usrY M + usrY F1) * 0.5;
          s1 = (if \<not> suspendUpdate then
                  (let R = parabola_transformFunc meetLineLine inp;
                       T = transformMat R a b
                   in s\<lparr>rotationMatrix := Some R,
                        quadraticform := Some
                          (matMatMult (transpose_mat T)
                             (matMatMult
                                [[- b * e4 - a * a, a, 2 * e],
                                 [a, - 1, 0],
                                 [2 * e, 0, 0]] T))\<rparr>)
                else s)
      in (apply_rotation (rotationMatrix s1) [e4, e4 * (t + a), t * t + b * e4], s1))"

definition parabola_X ::
    "(vec \<Rightarrow> vec \<Rightarrow> vec) \<Rightarrow> parabola_inputs \<Rightarrow> real \<Rightarrow> bool \<Rightarrow> focal_state
       \<Rightarrow> (error + real) \<times> focal_state" where
  "parabola_X meetLineLine inp phi suspendUpdate s =
     component 1 (parabola_polarForm meetLineLine inp phi suspendUpdate s)"

definition parabola_Y ::
    "(vec \<Rightarrow> vec \<Rightarrow> vec) \<Rightarrow> parabola_inputs \<Rightarrow> real \<Rightarrow> bool \<Rightarrow> focal_state
       \<Rightarrow> (error + real) \<times> focal_state" where
  "parabola_Y meetLineLine inp phi suspendUpdate s =
     component 2 (parabola_polarForm meetLineLine inp phi suspendUpdate s)"

subsection \<open>The ellipse, as the specification words it\<close>

definition spec_a :: "focal_inputs \<Rightarrow> real" where
  \<comment> \<open>\<open>a = majorAxis()/2\<close>\<close>
  "spec_a inp = ellipse_majorAxis inp / 2"

definition spec_e :: "focal_inputs \<Rightarrow> real" where
  \<comment> \<open>\<open>e = |f1 - f0|/2\<close>\<close>
  "spec_e inp =
     sqrt ((pX (foc_F1 inp) - pX (foc_F0 inp))\<^sup>2 + (pY (foc_F1 inp) - pY (foc_F0 inp))\<^sup>2) / 2"

definition spec_b :: "focal_inputs \<Rightarrow> real" where
  \<comment> \<open>\<open>b = sqrt(a\<^sup>2 - e\<^sup>2)\<close>\<close>
  "spec_b inp = sqrt ((spec_a inp)\<^sup>2 - (spec_e inp)\<^sup>2)"

definition spec_angle :: "focal_inputs \<Rightarrow> real" where
  \<comment> \<open>the angle of the segment from \<open>f0\<close> to \<open>f1\<close>: \<open>atan2\<close> with \<open>\<pi>\<close> added when the segment
      points to the left, and a quarter turn up or down when \<open>|\<Delta>x| \<le> 1e-7\<close>\<close>
  "spec_angle inp =
     (let dx = pX (foc_F1 inp) - pX (foc_F0 inp);
          dy = pY (foc_F1 inp) - pY (foc_F0 inp)
      in if \<bar>dx\<bar> \<le> 1 / 10 ^ 7 then (if dy > 0 then pi / 2 else - (pi / 2))
         else atan2 dy dx + (if dx < 0 then pi else 0))"

definition translation3 :: "real \<Rightarrow> real \<Rightarrow> mat" where
  \<comment> \<open>the translation by \<open>(tx, ty)\<close> on homogeneous coordinates \<open>(w, x, y)\<close>\<close>
  "translation3 tx ty = [[1, 0, 0], [tx, 1, 0], [ty, 0, 1]]"

definition rotation3 :: "real \<Rightarrow> mat" where
  \<comment> \<open>the rotation by the angle \<open>\<beta>\<close> about the origin\<close>
  "rotation3 \<beta> = [[1, 0, 0], [0, cos \<beta>, - sin \<beta>], [0, sin \<beta>, cos \<beta>]]"

definition spec_similarity :: "focal_inputs \<Rightarrow> mat" where
  \<comment> \<open>rotate by the angle of the segment, then translate to the midpoint of the foci\<close>
  "spec_similarity inp =
     matMatMult
       (translation3 ((pX (foc_F0 inp) + pX (foc_F1 inp)) / 2)
                     ((pY (foc_F0 inp) + pY (foc_F1 inp)) / 2))
       (rotation3 (spec_angle inp))"

section \<open>Concrete inputs\<close>

definition ellipse_example :: focal_inputs where
  \<comment> \<open>an ellipse with foci \<open>(0, 0)\<close> and \<open>(2, 0)\<close> and major axis of length 4\<close>
  "ellipse_example = \<lparr>foc_F0 = (0, 0), foc_F1 = (2, 0), foc_third = AxisLength 4\<rparr>"

definition conic_example_negative :: conic_inputs where
  \<comment> \<open>the six coefficients \<open>a00 = 1\<close>, \<open>a11 = 1\<close>, \<open>a22 = -1\<close>, no mixed terms: the unit circle,
      with \<open>M\<close> the diagonal matrix of \<open>-1, 1, 1\<close>\<close>
  "conic_example_negative = GivenByCoefficients [1, 1, - 1, 0, 0, 0]"

definition conic_example_positive :: conic_inputs where
  \<comment> \<open>the six coefficients \<open>1, 1, 1, 0, 0, 0\<close>: \<open>M\<close> is the identity\<close>
  "conic_example_positive = GivenByCoefficients [1, 1, 1, 0, 0, 0]"

definition conic_example_second :: conic_inputs where
  \<comment> \<open>the six coefficients \<open>-1, 1, 1, 0, 0, 0\<close>: the hyperbola \<open>x\<^sup>2 - y\<^sup>2 = 1\<close>, with \<open>M\<close> the
      diagonal matrix of \<open>1, -1, 1\<close>\<close>
  "conic_example_second = GivenByCoefficients [- 1, 1, 1, 0, 0, 0]"

definition conic_example_third :: conic_inputs where
  \<comment> \<open>the six coefficients \<open>1, -1, 1, 0, 0, 0\<close>: the hyperbola \<open>y\<^sup>2 - x\<^sup>2 = 1\<close>, with \<open>M\<close> the
      diagonal matrix of \<open>1, 1, -1\<close>\<close>
  "conic_example_third = GivenByCoefficients [1, - 1, 1, 0, 0, 0]"

definition ellipse_example_long :: focal_inputs where
  \<comment> \<open>the foci of \<open>ellipse_example\<close> with a major axis of length 6\<close>
  "ellipse_example_long = \<lparr>foc_F0 = (0, 0), foc_F1 = (2, 0), foc_third = AxisLength 6\<rparr>"

definition ellipse_example_moved :: focal_inputs where
  \<comment> \<open>\<open>ellipse_example\<close> with both foci moved by \<open>(5, 7)\<close>\<close>
  "ellipse_example_moved = \<lparr>foc_F0 = (5, 7), foc_F1 = (7, 7), foc_third = AxisLength 4\<rparr>"

definition meetLineLine_cross :: "vec \<Rightarrow> vec \<Rightarrow> vec" where
  \<comment> \<open>Modelled from the spec: \<^verbatim>\<open>Geometry.meetLineLine\<close> is not in the source file; the spec
      calls it the line-line intersection. Two lines in homogeneous coordinates meet in their
      cross product, here scaled to \<open>w = 1\<close> when the point is finite. It is used only to
      instantiate the parameter \<open>meetLineLine\<close> at a concrete input.\<close>
  "meetLineLine_cross u w =
     (let s = crossProduct u w
      in if s ! 0 \<noteq> 0 then [1, s ! 1 / s ! 0, s ! 2 / s ! 0] else s)"

definition parabola_example :: parabola_inputs where
  \<comment> \<open>focus \<open>(0, 1)\<close>, directrix \<open>1 + y = 0\<close> of slope 0: the parabola \<open>4y = x\<^sup>2\<close>\<close>
  "parabola_example = \<lparr>par_F1 = [1, 0, 1], par_stdform = [1, 0, 1], par_slope = Some 0\<rparr>"

section \<open>Auxiliary facts about the 3\<times>3 primitives\<close>

lemma upt_0_3: "[0..<3] = [0, 1, 2]"
  by (simp add: upt_rec)

lemma sym_mat_3:
  "sym_mat [[a, b, c], [d, e, f], [g, h, i]] =
     [[a + a, b + d, c + g], [b + d, e + e, f + h], [c + g, f + h, i + i]]"
  by (simp add: sym_mat_def set2_def upt_rec)

lemma spec_sym_outer:
  "spec_sym (outer v w) =
     [[v ! 0 * w ! 0 + v ! 0 * w ! 0, v ! 0 * w ! 1 + v ! 1 * w ! 0, v ! 0 * w ! 2 + v ! 2 * w ! 0],
      [v ! 0 * w ! 1 + v ! 1 * w ! 0, v ! 1 * w ! 1 + v ! 1 * w ! 1, v ! 1 * w ! 2 + v ! 2 * w ! 1],
      [v ! 0 * w ! 2 + v ! 2 * w ! 0, v ! 1 * w ! 2 + v ! 2 * w ! 1, v ! 2 * w ! 2 + v ! 2 * w ! 2]]"
  by (simp add: spec_sym_def outer_def transpose_mat_def upt_0_3 algebra_simps)

lemma fill3:
  "fold (\<lambda>i A. fold (\<lambda>j A. set2 A i j (f i j)) [0..<3] A) [0..<3] zero3 =
     [[f 0 0, f 0 1, f 0 2], [f 1 0, f 1 1, f 1 2], [f 2 0, f 2 1, f 2 2]]"
  by (simp add: upt_0_3 zero3_def set2_def)

lemma degconic_eq: "degconic v w = spec_sym (outer v w)"
  by (simp add: degconic_def fill3 spec_sym_outer sym_mat_3 algebra_simps)

lemma fitConic_entries:
  "fitConic A B p =
     map (\<lambda>i. map (\<lambda>j. quadform B p * A ! i ! j - quadform A p * B ! i ! j) [0..<3]) [0..<3]"
  unfolding fitConic_def Let_def fill3 quadform_def by (simp add: upt_0_3)

lemma fitConic_literal:
  "fitConic [[a, b, c], [d, e, f], [g, h, i]] [[a', b', c'], [d', e', f'], [g', h', i']] q =
     map2 (map2 (-))
       (map (map ((*) (quadform [[a', b', c'], [d', e', f'], [g', h', i']] q)))
          [[a, b, c], [d, e, f], [g, h, i]])
       (map (map ((*) (quadform [[a, b, c], [d, e, f], [g, h, i]] q)))
          [[a', b', c'], [d', e', f'], [g', h', i']])"
  by (simp add: fitConic_entries upt_0_3)

lemma buildM_pencil:
  "conic_buildM (GivenByPoints [p0, p1, p2, p3, p4]) M0 = spec_pencil p0 p1 p2 p3 p4"
  by (simp add: conic_buildM_def spec_pencil_def degconic_eq spec_sym_outer fitConic_literal Let_def)

lemma quadform_spec_sym_outer:
  "quadform (spec_sym (outer v w)) p = 2 * innerProduct v p * innerProduct w p"
  by (simp add: spec_sym_outer quadform_def innerProduct_def matVecMult_def upt_0_3 algebra_simps)

lemma inner_cross_left: "innerProduct (crossProduct p q) p = 0"
  by (simp add: innerProduct_def crossProduct_def upt_0_3 algebra_simps)

lemma inner_cross_right: "innerProduct (crossProduct p q) q = 0"
  by (simp add: innerProduct_def crossProduct_def upt_0_3 algebra_simps)

lemma quadform_fitConic:
  "quadform (fitConic A B q) p = quadform B q * quadform A p - quadform A q * quadform B p"
proof -
  define \<alpha> where "\<alpha> = quadform B q"
  define \<beta> where "\<beta> = quadform A q"
  have "fitConic A B q = map (\<lambda>i. map (\<lambda>j. \<alpha> * A ! i ! j - \<beta> * B ! i ! j) [0..<3]) [0..<3]"
    by (simp add: fitConic_entries \<alpha>_def \<beta>_def)
  then have "quadform (fitConic A B q) p = \<alpha> * quadform A p - \<beta> * quadform B p"
    by (simp add: quadform_def innerProduct_def matVecMult_def upt_0_3 algebra_simps)
  then show ?thesis by (simp add: \<alpha>_def \<beta>_def)
qed

lemma quadform_pencil:
  "quadform (spec_pencil p0 p1 p2 p3 p4) p =
     4 * (innerProduct (crossProduct p0 p2) p4 * innerProduct (crossProduct p1 p3) p4 *
            (innerProduct (crossProduct p0 p1) p * innerProduct (crossProduct p2 p3) p)
        - innerProduct (crossProduct p0 p1) p4 * innerProduct (crossProduct p2 p3) p4 *
            (innerProduct (crossProduct p0 p2) p * innerProduct (crossProduct p1 p3) p))"
proof -
  have "spec_pencil p0 p1 p2 p3 p4 =
          fitConic (degconic (crossProduct p0 p1) (crossProduct p2 p3))
                   (degconic (crossProduct p0 p2) (crossProduct p1 p3)) p4"
    using buildM_pencil [of p0 p1 p2 p3 p4 identity3] by (simp add: conic_buildM_def Let_def)
  then show ?thesis
    by (simp add: quadform_fitConic degconic_eq quadform_spec_sym_outer)
qed

lemma snd_conic_polarForm:
  "snd (conic_polarForm Jacobi inp phi suspendUpdate s) =
     (if suspendUpdate then s else conic_update Jacobi inp s)"
  by (simp add: conic_polarForm_def Let_def split: option.splits)

lemma congruence_symmetric3:
  "symmetric3 Q \<Longrightarrow> symmetric3 (matMatMult (transpose_mat T) (matMatMult Q T))"
  by (simp add: symmetric3_def matMatMult_def transpose_mat_def upt_0_3 algebra_simps)

lemma symmetric3_pencil: "symmetric3 (spec_pencil p0 p1 p2 p3 p4)"
  by (simp add: spec_pencil_def spec_sym_outer symmetric3_def Let_def)

lemma vec3_cases:
  assumes "length (u :: 'a list) = 3"
  obtains x y z where "u = [x, y, z]"
  using assms by (metis length_0_conv length_Suc_conv numeral_3_eq_3)

lemma mat3_cases:
  assumes "mat3 A"
  obtains a b c d e f g h i where "A = [[a, b, c], [d, e, f], [g, h, i]]"
proof -
  from assms have "length A = 3" by (simp add: mat3_def)
  then obtain r0 r1 r2 where A: "A = [r0, r1, r2]" by (rule vec3_cases)
  with assms have "length r0 = 3" "length r1 = 3" "length r2 = 3" by (simp_all add: mat3_def)
  then show thesis
    by (elim vec3_cases) (auto simp add: A intro: that)
qed

lemma buildM_coefficients:
  "mat3 M0 \<Longrightarrow> conic_buildM (GivenByCoefficients ps) M0 =
     [[ps ! 2, ps ! 4, ps ! 5], [ps ! 4, ps ! 0, ps ! 3], [ps ! 5, ps ! 3, ps ! 1]]"
  by (erule mat3_cases) (simp add: conic_buildM_def definingMat_def set2_def upt_rec Let_def)

lemma transformMat_literal:
  "transformMat R mx my =
     [[R ! 0 ! 0, 0, 0],
      [mx * (1 - R ! 1 ! 1) + my * R ! 1 ! 2, R ! 1 ! 1, R ! 2 ! 1],
      [my * (1 - R ! 1 ! 1) - mx * R ! 1 ! 2, R ! 1 ! 2, R ! 2 ! 2]]"
  by (simp add: transformMat_def identity3_def set2_def)

lemma transformFunc_example: "transformFunc ellipse_example = [[1, 0, 0], [1, 1, 0], [0, 0, 1]]"
  by (simp add: transformFunc_def ellipse_example_def midpoint_X_def midpoint_Y_def pX_def pY_def
        atan2_def Let_def)

lemma midpoint_example: "midpoint_X ellipse_example = 1" "midpoint_Y ellipse_example = 0"
  by (simp_all add: midpoint_X_def midpoint_Y_def ellipse_example_def pX_def pY_def)

lemma axes_example:
  "ellipse_majorAxis ellipse_example = 4"
  "Dist (foc_F1 ellipse_example) (foc_F0 ellipse_example) = 2"
  by (simp_all add: ellipse_majorAxis_def Dist_def ellipse_example_def pX_def pY_def)

lemma scaleEigenvalues_literal:
  "scaleEigenvalues [[a, b, c], [d, e, f], [g, h, i]] =
     (if a < 0 then [[- a, b, c], [d, - e, f], [g, h, - i]] else [[a, b, c], [d, e, f], [g, h, i]])"
  by (simp add: scaleEigenvalues_def set2_def Let_def)

lemma scaleEigenvalues_diag:
  assumes "mat3 E"
  shows "scaleEigenvalues E ! 0 ! 0 = (if E ! 0 ! 0 < 0 then - (E ! 0 ! 0) else E ! 0 ! 0)"
    and "scaleEigenvalues E ! 1 ! 1 = (if E ! 0 ! 0 < 0 then - (E ! 1 ! 1) else E ! 1 ! 1)"
    and "scaleEigenvalues E ! 2 ! 2 = (if E ! 0 ! 0 < 0 then - (E ! 2 ! 2) else E ! 2 ! 2)"
  using assms by (auto elim!: mat3_cases simp add: scaleEigenvalues_literal)

lemma conic_eigen_update:
  "conic_eigen (conic_update Jacobi inp s) =
     Some (scaleEigenvalues (fst (Jacobi (conic_buildM inp (conic_M s)))),
           snd (Jacobi (conic_buildM inp (conic_M s))))"
  by (simp add: conic_update_def Let_def)

lemma buildM_negative: "conic_buildM conic_example_negative identity3 = [[- 1, 0, 0], [0, 1, 0], [0, 0, 1]]"
  by (simp add: conic_example_negative_def buildM_coefficients mat3_def identity3_def)

lemma buildM_positive: "conic_buildM conic_example_positive identity3 = [[1, 0, 0], [0, 1, 0], [0, 0, 1]]"
  by (simp add: conic_example_positive_def buildM_coefficients mat3_def identity3_def)

lemma buildM_second: "conic_buildM conic_example_second identity3 = [[1, 0, 0], [0, - 1, 0], [0, 0, 1]]"
  by (simp add: conic_example_second_def buildM_coefficients mat3_def identity3_def)

lemma buildM_third: "conic_buildM conic_example_third identity3 = [[1, 0, 0], [0, 1, 0], [0, 0, - 1]]"
  by (simp add: conic_example_third_def buildM_coefficients mat3_def identity3_def)

lemma eigen_second:
  "conic_eigen (conic_update jacobi_of_diagonal conic_example_second conic_init) =
     Some ([[1, 0, 0], [0, - 1, 0], [0, 0, 1]], identity3)"
  by (simp add: conic_update_def conic_init_def buildM_second jacobi_of_diagonal_def
        scaleEigenvalues_literal Let_def)

lemma eigen_third:
  "conic_eigen (conic_update jacobi_of_diagonal conic_example_third conic_init) =
     Some ([[1, 0, 0], [0, 1, 0], [0, 0, - 1]], identity3)"
  by (simp add: conic_update_def conic_init_def buildM_third jacobi_of_diagonal_def
        scaleEigenvalues_literal Let_def)

lemma update_negative:
  "conic_update jacobi_of_diagonal conic_example_negative conic_init =
     \<lparr>conic_M = [[- 1, 0, 0], [0, 1, 0], [0, 0, 1]],
      conic_quadraticform = Some [[- 1, 0, 0], [0, 1, 0], [0, 0, 1]],
      conic_eigen = Some ([[1, 0, 0], [0, - 1, 0], [0, 0, - 1]], identity3),
      conic_rotationMatrix = identity3, conic_a = 1, conic_b = 1, conic_c = 1\<rparr>"
  by (simp add: conic_update_def conic_init_def buildM_negative jacobi_of_diagonal_def
        scaleEigenvalues_literal Let_def)

lemma update_positive:
  "conic_update jacobi_of_diagonal conic_example_positive conic_init =
     \<lparr>conic_M = [[1, 0, 0], [0, 1, 0], [0, 0, 1]],
      conic_quadraticform = Some [[1, 0, 0], [0, 1, 0], [0, 0, 1]],
      conic_eigen = Some ([[1, 0, 0], [0, 1, 0], [0, 0, 1]], identity3),
      conic_rotationMatrix = identity3, conic_a = 1, conic_b = 1, conic_c = 1\<rparr>"
  by (simp add: conic_update_def conic_init_def buildM_positive jacobi_of_diagonal_def
        scaleEigenvalues_literal Let_def)

lemma conic_polarForm_branch:
  assumes "conic_eigen (if suspendUpdate then s else conic_update Jacobi inp s) = Some (E, V)"
  shows "fst (conic_polarForm Jacobi inp phi suspendUpdate s) =
           (case conic_branch (if suspendUpdate then s else conic_update Jacobi inp s) E phi of
              None \<Rightarrow> Inl TypeError | Some v \<Rightarrow> Inr (normalize_w v))"
  using assms by (cases suspendUpdate) (simp_all add: conic_polarForm_def Let_def split: option.splits)

section \<open>The five-point construction\<close>

text \<open>
  Claim C2. For any five points, given by their homogeneous coordinates, an evaluation that
  is not suspended stores as quadratic form the pencil
  \<open>(p4\<^sup>t c2 p4)\<cdot>c1 - (p4\<^sup>t c1 p4)\<cdot>c2\<close> of the two line pairs \<open>c1 = sym(l01 \<otimes> l23)\<close> and
  \<open>c2 = sym(l02 \<otimes> l13)\<close>, and in exact arithmetic this form vanishes at each of the five
  points. The form is stored whatever the eigensolver returns and whether or not the call
  then produces a point.
\<close>

theorem five_point_pencil:
  "conic_quadraticform
      (snd (conic_polarForm Jacobi (GivenByPoints [p0, p1, p2, p3, p4]) phi False s))
      = Some (spec_pencil p0 p1 p2 p3 p4)
   \<and> quadform (spec_pencil p0 p1 p2 p3 p4) p0 = 0
   \<and> quadform (spec_pencil p0 p1 p2 p3 p4) p1 = 0
   \<and> quadform (spec_pencil p0 p1 p2 p3 p4) p2 = 0
   \<and> quadform (spec_pencil p0 p1 p2 p3 p4) p3 = 0
   \<and> quadform (spec_pencil p0 p1 p2 p3 p4) p4 = 0"
proof -
  have "conic_quadraticform
          (snd (conic_polarForm Jacobi (GivenByPoints [p0, p1, p2, p3, p4]) phi False s))
          = Some (spec_pencil p0 p1 p2 p3 p4)"
    by (simp add: snd_conic_polarForm conic_update_def Let_def buildM_pencil)
  then show ?thesis
    by (simp add: quadform_pencil inner_cross_left inner_cross_right)
qed

text \<open>
  The five points \<open>(1, 5)\<close>, \<open>(1, 2)\<close>, \<open>(2, 0)\<close>, \<open>(0, 0)\<close>, \<open>(-1, 5)\<close> of the
  documentation, with homogeneous coordinate 1 in front: the matrix built from them, and its
  value at each of the five.
\<close>

lemma buildM_five_points_example:
  "conic_buildM (GivenByPoints [[1, 1, 5], [1, 1, 2], [1, 2, 0], [1, 0, 0], [1, - 1, 5]]) M0
     = [[0, 2400, - 360], [2400, - 2400, - 480], [- 360, - 480, 240]]"
  by (simp add: buildM_pencil spec_pencil_def spec_sym_outer crossProduct_def quadform_def
        innerProduct_def matVecMult_def upt_0_3 Let_def)

lemma quadform_five_points_example:
  "quadform [[0, 2400, - 360], [2400, - 2400, - 480], [- 360, - 480, 240]] [1, 1, 5] = 0"
  "quadform [[0, 2400, - 360], [2400, - 2400, - 480], [- 360, - 480, 240]] [1, 1, 2] = 0"
  "quadform [[0, 2400, - 360], [2400, - 2400, - 480], [- 360, - 480, 240]] [1, 2, 0] = 0"
  "quadform [[0, 2400, - 360], [2400, - 2400, - 480], [- 360, - 480, 240]] [1, 0, 0] = 0"
  "quadform [[0, 2400, - 360], [2400, - 2400, - 480], [- 360, - 480, 240]] [1, - 1, 5] = 0"
  by (simp_all add: quadform_def innerProduct_def matVecMult_def upt_0_3)

section \<open>Symmetry of the stored quadratic form\<close>

text \<open>
  The hyperbola, the parabola and both kinds of general conic store a symmetric matrix at
  every update: the first two conjugate a symmetric matrix by \<^verbatim>\<open>transformMat\<close>, the
  five-point pencil combines two symmetrised matrices, and the six coefficients are copied
  across the diagonal.
\<close>

lemma hyperbola_quadraticform_symmetric:
  assumes "quadraticform (snd (hyperbola_polarForm inp phi False s)) = Some Q"
  shows "symmetric3 Q"
proof -
  define a where "a = hyperbola_majorAxis inp * 0.5"
  define e where "e = Dist (foc_F1 inp) (foc_F0 inp) * 0.5"
  define b where "b = sqrt (- a * a + e * e)"
  define mx where "mx = midpoint_X inp"
  define my where "my = midpoint_Y inp"
  define T where "T = transformMat (transformFunc inp) mx my"
  define Q0 where
    "Q0 = [[- 1 + mx * mx / (a * a) + my * my / (b * b), - mx / (a * a), my / (b * b)],
           [- mx / (a * a), 1 / (a * a), 0],
           [my / (b * b), 0, - 1 / (b * b)]]"
  have "quadraticform (snd (hyperbola_polarForm inp phi False s))
          = Some (matMatMult (transpose_mat T) (matMatMult Q0 T))"
    unfolding hyperbola_polarForm_def Let_def Q0_def T_def mx_def my_def b_def e_def a_def
    by simp
  with assms have "Q = matMatMult (transpose_mat T) (matMatMult Q0 T)" by simp
  moreover have "symmetric3 Q0" by (simp add: Q0_def symmetric3_def)
  ultimately show ?thesis by (simp add: congruence_symmetric3)
qed

lemma parabola_quadraticform_symmetric:
  assumes "quadraticform (snd (parabola_polarForm meetLineLine inp t False s)) = Some Q"
  shows "symmetric3 Q"
proof -
  define e where "e = parabola_e meetLineLine inp"
  define a where "a = (usrX (parabola_M meetLineLine inp) + usrX (par_F1 inp)) * 0.5"
  define b where "b = (usrY (parabola_M meetLineLine inp) + usrY (par_F1 inp)) * 0.5"
  define T where "T = transformMat (parabola_transformFunc meetLineLine inp) a b"
  define Q0 where "Q0 = [[- b * (e * 4) - a * a, a, 2 * e], [a, - 1, 0], [2 * e, 0, 0]]"
  have "quadraticform (snd (parabola_polarForm meetLineLine inp t False s))
          = Some (matMatMult (transpose_mat T) (matMatMult Q0 T))"
    unfolding parabola_polarForm_def Let_def Q0_def T_def a_def b_def e_def
    by simp
  with assms have "Q = matMatMult (transpose_mat T) (matMatMult Q0 T)" by simp
  moreover have "symmetric3 Q0" by (simp add: Q0_def symmetric3_def)
  ultimately show ?thesis by (simp add: congruence_symmetric3)
qed

lemma conic_quadraticform_symmetric:
  assumes "mat3 (conic_M s)"
    and "inp = GivenByPoints [p0, p1, p2, p3, p4] \<or> inp = GivenByCoefficients ps"
    and "conic_quadraticform (snd (conic_polarForm Jacobi inp phi False s)) = Some Q"
  shows "symmetric3 Q"
proof -
  from assms(3) have Q: "Q = conic_buildM inp (conic_M s)"
    by (simp add: snd_conic_polarForm conic_update_def Let_def)
  from assms(2) show ?thesis
  proof
    assume "inp = GivenByPoints [p0, p1, p2, p3, p4]"
    then show ?thesis by (simp add: Q buildM_pencil symmetric3_pencil)
  next
    assume "inp = GivenByCoefficients ps"
    then show ?thesis using assms(1) by (simp add: Q buildM_coefficients symmetric3_def)
  qed
qed

text \<open>
  Claim C1 asks for a symmetric \<^verbatim>\<open>curve.quadraticform\<close> after every evaluation that is not
  suspended, in every family. The ellipse does not deliver it: the matrix it conjugates has
  \<^verbatim>\<open>-mx / bb\<close> in row 0, column 2, but \<^verbatim>\<open>-my / bb\<close> in row 2, column 0. For the ellipse with
  foci \<open>(0, 0)\<close> and \<open>(2, 0)\<close> and major axis 4 (so \<open>mx = 1\<close>, \<open>my = 0\<close>, \<open>aa = 4\<close>,
  \<open>bb = 3\<close>, and \<^verbatim>\<open>transformMat\<close> the identity) the first update stores the matrix below,
  whose entry \<open>[0][2]\<close> is \<open>-1/3\<close> and whose entry \<open>[2][0]\<close> is \<open>0\<close>.
\<close>

theorem ellipse_quadraticform_asymmetric:
  "quadraticform (snd (ellipse_polarForm ellipse_example phi False focal_init))
     = Some [[- 3 / 4, - 1 / 4, - 1 / 3], [- 1 / 4, 1 / 4, 0], [0, 0, 1 / 3]]
   \<and> \<not> symmetric3 [[- 3 / 4, - 1 / 4, - 1 / 3], [- 1 / 4, 1 / 4, 0], [0, 0, 1 / 3]]"
proof -
  have T: "transformMat (transformFunc ellipse_example) 1 0 = [[1, 0, 0], [0, 1, 0], [0, 0, 1]]"
    by (simp add: transformFunc_example transformMat_literal)
  have "matMatMult (transpose_mat [[1, 0, 0], [0, 1, 0], [0, 0, 1]])
          (matMatMult [[- 3 / 4, - 1 / 4, - 1 / 3], [- 1 / 4, 1 / 4, 0], [0, 0, 1 / 3]]
             [[1, 0, 0], [0, 1, 0], [0, 0, 1]])
        = [[- 3 / 4, - 1 / 4, - 1 / 3], [- 1 / 4, 1 / 4, 0], [0, 0, 1 / 3 :: real]]"
    by (simp add: matMatMult_def transpose_mat_def upt_0_3)
  then show ?thesis
    by (simp add: ellipse_polarForm_def Let_def midpoint_example axes_example T symmetric3_def)
qed

section \<open>Suspended evaluations\<close>

text \<open>
  The second argument of \<^verbatim>\<open>polarForm\<close> is \<^verbatim>\<open>suspendUpdate\<close>: an evaluation "with recompute"
  passes \<open>False\<close>, a suspended one ("recompute = false") passes \<open>True\<close>.

  Claim C3. In every family a suspended evaluation leaves the whole cached state as it was,
  whatever that state is, and so in particular after any number of updates: the stored
  quadratic form and rotation matrix and, for the general conic, \<open>M\<close>, the eigen data and
  the scalars \<open>a\<close>, \<open>b\<close>, \<open>c\<close>. Its result is the stored rotation matrix applied to the
  parametrisation vector; for the general conic the result does not depend on the
  eigensolver or on the defining points or coefficients at all.
\<close>

theorem suspended_call_frame:
  "snd (ellipse_polarForm inp phi True s) = s
   \<and> snd (hyperbola_polarForm inp phi True s) = s
   \<and> snd (parabola_polarForm meetLineLine pinp phi True s) = s
   \<and> snd (conic_polarForm Jacobi cinp phi True cs) = cs
   \<and> fst (ellipse_polarForm inp phi True s) =
        apply_rotation (rotationMatrix s)
          [1, ellipse_majorAxis inp * 0.5 * cos phi,
           sqrt (ellipse_majorAxis inp * 0.5 * (ellipse_majorAxis inp * 0.5)
                 - Dist (foc_F1 inp) (foc_F0 inp) * 0.5 * (Dist (foc_F1 inp) (foc_F0 inp) * 0.5))
             * sin phi]
   \<and> fst (hyperbola_polarForm inp phi True s) =
        apply_rotation (rotationMatrix s)
          [1, hyperbola_majorAxis inp * 0.5 / cos phi,
           sqrt (- (hyperbola_majorAxis inp * 0.5) * (hyperbola_majorAxis inp * 0.5)
                 + Dist (foc_F1 inp) (foc_F0 inp) * 0.5 * (Dist (foc_F1 inp) (foc_F0 inp) * 0.5))
             * tan phi]
   \<and> fst (parabola_polarForm meetLineLine pinp phi True s) =
        apply_rotation (rotationMatrix s)
          [parabola_e meetLineLine pinp * 4,
           parabola_e meetLineLine pinp * 4
             * (phi + (usrX (parabola_M meetLineLine pinp) + usrX (par_F1 pinp)) * 0.5),
           phi * phi + (usrY (parabola_M meetLineLine pinp) + usrY (par_F1 pinp)) * 0.5
             * (parabola_e meetLineLine pinp * 4)]
   \<and> conic_polarForm Jacobi cinp phi True cs = conic_polarForm Jacobi' cinp' phi True cs"
  by (simp add: ellipse_polarForm_def hyperbola_polarForm_def parabola_polarForm_def
        conic_polarForm_def Let_def split: option.splits)

text \<open>
  Claim C4. In every family, after an evaluation with recompute at \<open>phi\<close>, a suspended
  evaluation at the same \<open>phi\<close> with the same live inputs returns the very result of the
  first call, and so does a second suspended evaluation after it. This covers the calls that
  fail: they fail again in the same way. (Equality of reals stands for bit-identity; the
  three calls perform the same operations on the same operands.)
\<close>

theorem suspended_call_idempotent:
  "fst (ellipse_polarForm inp phi True (snd (ellipse_polarForm inp phi False s)))
     = fst (ellipse_polarForm inp phi False s)
   \<and> fst (ellipse_polarForm inp phi True
            (snd (ellipse_polarForm inp phi True (snd (ellipse_polarForm inp phi False s)))))
     = fst (ellipse_polarForm inp phi False s)
   \<and> fst (hyperbola_polarForm inp phi True (snd (hyperbola_polarForm inp phi False s)))
     = fst (hyperbola_polarForm inp phi False s)
   \<and> fst (hyperbola_polarForm inp phi True
            (snd (hyperbola_polarForm inp phi True (snd (hyperbola_polarForm inp phi False s)))))
     = fst (hyperbola_polarForm inp phi False s)
   \<and> fst (parabola_polarForm meetLineLine pinp phi True
            (snd (parabola_polarForm meetLineLine pinp phi False s)))
     = fst (parabola_polarForm meetLineLine pinp phi False s)
   \<and> fst (parabola_polarForm meetLineLine pinp phi True
            (snd (parabola_polarForm meetLineLine pinp phi True
               (snd (parabola_polarForm meetLineLine pinp phi False s)))))
     = fst (parabola_polarForm meetLineLine pinp phi False s)
   \<and> fst (conic_polarForm Jacobi cinp phi True (snd (conic_polarForm Jacobi cinp phi False cs)))
     = fst (conic_polarForm Jacobi cinp phi False cs)
   \<and> fst (conic_polarForm Jacobi cinp phi True
            (snd (conic_polarForm Jacobi cinp phi True
               (snd (conic_polarForm Jacobi cinp phi False cs)))))
     = fst (conic_polarForm Jacobi cinp phi False cs)"
proof -
  have e: "fst (ellipse_polarForm inp phi True (snd (ellipse_polarForm inp phi False s)))
     = fst (ellipse_polarForm inp phi False s)"
    by (simp add: ellipse_polarForm_def Let_def)
  have h: "fst (hyperbola_polarForm inp phi True (snd (hyperbola_polarForm inp phi False s)))
     = fst (hyperbola_polarForm inp phi False s)"
    by (simp add: hyperbola_polarForm_def Let_def)
  have p: "fst (parabola_polarForm meetLineLine pinp phi True
            (snd (parabola_polarForm meetLineLine pinp phi False s)))
     = fst (parabola_polarForm meetLineLine pinp phi False s)"
    by (simp add: parabola_polarForm_def Let_def)
  have c: "fst (conic_polarForm Jacobi cinp phi True (snd (conic_polarForm Jacobi cinp phi False cs)))
     = fst (conic_polarForm Jacobi cinp phi False cs)"
    by (simp add: conic_polarForm_def Let_def split: option.splits)
  have fr: "\<And>t. snd (ellipse_polarForm inp phi True t) = t"
       "\<And>t. snd (hyperbola_polarForm inp phi True t) = t"
       "\<And>t. snd (parabola_polarForm meetLineLine pinp phi True t) = t"
       "\<And>t. snd (conic_polarForm Jacobi cinp phi True t) = t"
    by (simp_all add: ellipse_polarForm_def hyperbola_polarForm_def parabola_polarForm_def
        conic_polarForm_def Let_def split: option.splits)
  show ?thesis
    by (simp only: fr e h p c simp_thms)
qed

section \<open>The general conic: eigenvalues and branches\<close>

text \<open>
  In this section \<open>Jacobi\<close> is any function; the only thing asked of it is that the first
  matrix it returns for the quadratic form at hand has three rows of three entries.

  Claim C5. After every evaluation of the general conic that is not suspended, the stored
  first eigenvalue \<^verbatim>\<open>eigen[0][0][0]\<close>, from which \<open>c\<close> is computed, is not negative: the
  three diagonal entries are those the eigensolver returned, negated together exactly when
  the first of them was negative, and \<open>c\<close> is the square root of the stored first one.
\<close>

theorem primary_eigenvalue_nonnegative:
  assumes "mat3 (fst (Jacobi (conic_buildM inp (conic_M s))))"
  shows "conic_eigen (snd (conic_polarForm Jacobi inp phi False s)) =
           Some (scaleEigenvalues (fst (Jacobi (conic_buildM inp (conic_M s)))),
                 snd (Jacobi (conic_buildM inp (conic_M s))))
         \<and> 0 \<le> scaleEigenvalues (fst (Jacobi (conic_buildM inp (conic_M s)))) ! 0 ! 0
         \<and> conic_c (snd (conic_polarForm Jacobi inp phi False s)) =
             sqrt (scaleEigenvalues (fst (Jacobi (conic_buildM inp (conic_M s)))) ! 0 ! 0)
         \<and> scaleEigenvalues (fst (Jacobi (conic_buildM inp (conic_M s)))) ! 0 ! 0 =
             (if fst (Jacobi (conic_buildM inp (conic_M s))) ! 0 ! 0 < 0
              then - (fst (Jacobi (conic_buildM inp (conic_M s))) ! 0 ! 0)
              else fst (Jacobi (conic_buildM inp (conic_M s))) ! 0 ! 0)
         \<and> scaleEigenvalues (fst (Jacobi (conic_buildM inp (conic_M s)))) ! 1 ! 1 =
             (if fst (Jacobi (conic_buildM inp (conic_M s))) ! 0 ! 0 < 0
              then - (fst (Jacobi (conic_buildM inp (conic_M s))) ! 1 ! 1)
              else fst (Jacobi (conic_buildM inp (conic_M s))) ! 1 ! 1)
         \<and> scaleEigenvalues (fst (Jacobi (conic_buildM inp (conic_M s)))) ! 2 ! 2 =
             (if fst (Jacobi (conic_buildM inp (conic_M s))) ! 0 ! 0 < 0
              then - (fst (Jacobi (conic_buildM inp (conic_M s))) ! 2 ! 2)
              else fst (Jacobi (conic_buildM inp (conic_M s))) ! 2 ! 2)"
proof -
  define E0 where "E0 = fst (Jacobi (conic_buildM inp (conic_M s)))"
  have d: "scaleEigenvalues E0 ! 0 ! 0 = (if E0 ! 0 ! 0 < 0 then - (E0 ! 0 ! 0) else E0 ! 0 ! 0)"
      "scaleEigenvalues E0 ! 1 ! 1 = (if E0 ! 0 ! 0 < 0 then - (E0 ! 1 ! 1) else E0 ! 1 ! 1)"
      "scaleEigenvalues E0 ! 2 ! 2 = (if E0 ! 0 ! 0 < 0 then - (E0 ! 2 ! 2) else E0 ! 2 ! 2)"
    using assms unfolding E0_def by (rule scaleEigenvalues_diag)+
  have nn: "0 \<le> scaleEigenvalues E0 ! 0 ! 0" by (simp add: d)
  have c: "conic_c (snd (conic_polarForm Jacobi inp phi False s)) = sqrt \<bar>scaleEigenvalues E0 ! 0 ! 0\<bar>"
    by (simp add: snd_conic_polarForm conic_update_def Let_def E0_def)
  have e: "conic_eigen (snd (conic_polarForm Jacobi inp phi False s)) =
           Some (scaleEigenvalues E0, snd (Jacobi (conic_buildM inp (conic_M s))))"
    by (simp add: snd_conic_polarForm conic_eigen_update E0_def)
  from nn have "\<bar>scaleEigenvalues E0 ! 0 ! 0\<bar> = scaleEigenvalues E0 ! 0 ! 0" by simp
  with c have c': "conic_c (snd (conic_polarForm Jacobi inp phi False s)) = sqrt (scaleEigenvalues E0 ! 0 ! 0)"
    by simp
  show ?thesis
    using e nn c' d unfolding E0_def by blast
qed

theorem primary_eigenvalue_nonnegative_witness:
  "mat3 (fst (jacobi_of_diagonal (conic_buildM conic_example_negative (conic_M conic_init))))
   \<and> fst (jacobi_of_diagonal (conic_buildM conic_example_negative (conic_M conic_init))) ! 0 ! 0 = - 1
   \<and> conic_eigen (snd (conic_polarForm jacobi_of_diagonal conic_example_negative 0 False conic_init))
       = Some ([[1, 0, 0], [0, - 1, 0], [0, 0, - 1]], identity3)
   \<and> conic_c (snd (conic_polarForm jacobi_of_diagonal conic_example_negative 0 False conic_init)) = 1"
proof -
  have M: "conic_M conic_init = identity3" by (simp add: conic_init_def)
  have h: "mat3 (fst (jacobi_of_diagonal (conic_buildM conic_example_negative (conic_M conic_init))))"
    by (simp add: M buildM_negative jacobi_of_diagonal_def mat3_def)
  show ?thesis
    using h primary_eigenvalue_nonnegative
      [where Jacobi = jacobi_of_diagonal and inp = conic_example_negative and s = conic_init and phi = 0]
    by (simp add: M buildM_negative jacobi_of_diagonal_def scaleEigenvalues_literal)
qed

text \<open>
  Claim C6, amended. Let \<open>\<lambda>1\<close>, \<open>\<lambda>2\<close> be the stored second and third eigenvalues at the
  point where \<^verbatim>\<open>polarForm\<close> selects its branch (after the update, if there is one). If
  \<open>\<lambda>1 \<le> 0\<close> or \<open>\<lambda>2 < 0\<close> the call returns a vector, and exactly one branch has assigned it:
  the first for \<open>\<lambda>1 \<le> 0\<close>, \<open>\<lambda>2 \<le> 0\<close>, the second for \<open>\<lambda>1 \<le> 0\<close>, \<open>\<lambda>2 > 0\<close>, the third for
  \<open>\<lambda>1 > 0\<close>, \<open>\<lambda>2 < 0\<close>. No branch is taken, and the call fails on the undefined \<^verbatim>\<open>v\<close>,
  exactly when \<open>\<lambda>1 > 0\<close> and \<open>\<lambda>2 \<ge> 0\<close>; this needs no zero eigenvalue. The sign of the first
  eigenvalue plays no part.
\<close>

theorem branch_selection:
  assumes "conic_eigen (if suspendUpdate then s else conic_update Jacobi inp s) = Some (E, V)"
  shows "(E ! 1 ! 1 \<le> 0 \<or> E ! 2 ! 2 < 0
            \<longrightarrow> (\<exists>v. fst (conic_polarForm Jacobi inp phi suspendUpdate s) = Inr v))
       \<and> (fst (conic_polarForm Jacobi inp phi suspendUpdate s) = Inl TypeError
            \<longleftrightarrow> 0 < E ! 1 ! 1 \<and> 0 \<le> E ! 2 ! 2)
       \<and> (E ! 1 ! 1 \<le> 0 \<and> E ! 2 ! 2 \<le> 0 \<longrightarrow>
            conic_branch (if suspendUpdate then s else conic_update Jacobi inp s) E phi =
              Some (matVecMult (conic_rotationMatrix (if suspendUpdate then s else conic_update Jacobi inp s))
                     [1 / conic_c (if suspendUpdate then s else conic_update Jacobi inp s),
                      cos phi / conic_a (if suspendUpdate then s else conic_update Jacobi inp s),
                      sin phi / conic_b (if suspendUpdate then s else conic_update Jacobi inp s)]))
       \<and> (E ! 1 ! 1 \<le> 0 \<and> 0 < E ! 2 ! 2 \<longrightarrow>
            conic_branch (if suspendUpdate then s else conic_update Jacobi inp s) E phi =
              Some (matVecMult (conic_rotationMatrix (if suspendUpdate then s else conic_update Jacobi inp s))
                     [cos phi / conic_c (if suspendUpdate then s else conic_update Jacobi inp s),
                      1 / conic_a (if suspendUpdate then s else conic_update Jacobi inp s),
                      sin phi / conic_b (if suspendUpdate then s else conic_update Jacobi inp s)]))
       \<and> (0 < E ! 1 ! 1 \<and> E ! 2 ! 2 < 0 \<longrightarrow>
            conic_branch (if suspendUpdate then s else conic_update Jacobi inp s) E phi =
              Some (matVecMult (conic_rotationMatrix (if suspendUpdate then s else conic_update Jacobi inp s))
                     [sin phi / conic_c (if suspendUpdate then s else conic_update Jacobi inp s),
                      cos phi / conic_a (if suspendUpdate then s else conic_update Jacobi inp s),
                      1 / conic_b (if suspendUpdate then s else conic_update Jacobi inp s)]))
       \<and> (0 < E ! 1 ! 1 \<and> 0 \<le> E ! 2 ! 2 \<longrightarrow>
            conic_branch (if suspendUpdate then s else conic_update Jacobi inp s) E phi = None)"
proof -
  define s1 where "s1 = (if suspendUpdate then s else conic_update Jacobi inp s)"
  have r: "fst (conic_polarForm Jacobi inp phi suspendUpdate s) =
           (case conic_branch s1 E phi of None \<Rightarrow> Inl TypeError | Some v \<Rightarrow> Inr (normalize_w v))"
    unfolding s1_def using assms by (rule conic_polarForm_branch)
  have n: "conic_branch s1 E phi = None \<longleftrightarrow> 0 < E ! 1 ! 1 \<and> 0 \<le> E ! 2 ! 2"
    by (auto simp add: conic_branch_def)
  have 1: "E ! 1 ! 1 \<le> 0 \<or> E ! 2 ! 2 < 0
            \<longrightarrow> (\<exists>v. fst (conic_polarForm Jacobi inp phi suspendUpdate s) = Inr v)"
    using n by (cases "conic_branch s1 E phi") (auto simp add: r)
  have 2: "fst (conic_polarForm Jacobi inp phi suspendUpdate s) = Inl TypeError
            \<longleftrightarrow> 0 < E ! 1 ! 1 \<and> 0 \<le> E ! 2 ! 2"
    using n by (cases "conic_branch s1 E phi") (auto simp add: r)
  show ?thesis
    unfolding s1_def [symmetric] using 1 2 by (simp add: conic_branch_def)
qed

theorem branch_selection_witness:
  "conic_eigen (conic_update jacobi_of_diagonal conic_example_negative conic_init)
      = Some ([[1, 0, 0], [0, - 1, 0], [0, 0, - 1]], identity3)
   \<and> conic_eigen (conic_update jacobi_of_diagonal conic_example_second conic_init)
      = Some ([[1, 0, 0], [0, - 1, 0], [0, 0, 1]], identity3)
   \<and> conic_eigen (conic_update jacobi_of_diagonal conic_example_third conic_init)
      = Some ([[1, 0, 0], [0, 1, 0], [0, 0, - 1]], identity3)
   \<and> (\<exists>v. fst (conic_polarForm jacobi_of_diagonal conic_example_negative 0 False conic_init) = Inr v)
   \<and> (\<exists>v. fst (conic_polarForm jacobi_of_diagonal conic_example_second 0 False conic_init) = Inr v)
   \<and> (\<exists>v. fst (conic_polarForm jacobi_of_diagonal conic_example_third 0 False conic_init) = Inr v)"
proof -
  have h1: "conic_eigen (if False then conic_init
                         else conic_update jacobi_of_diagonal conic_example_negative conic_init)
             = Some ([[1, 0, 0], [0, - 1, 0], [0, 0, - 1]], identity3)"
    by (simp add: update_negative)
  have h2: "conic_eigen (if False then conic_init
                         else conic_update jacobi_of_diagonal conic_example_second conic_init)
             = Some ([[1, 0, 0], [0, - 1, 0], [0, 0, 1]], identity3)"
    by (simp add: eigen_second)
  have h3: "conic_eigen (if False then conic_init
                         else conic_update jacobi_of_diagonal conic_example_third conic_init)
             = Some ([[1, 0, 0], [0, 1, 0], [0, 0, - 1]], identity3)"
    by (simp add: eigen_third)
  show ?thesis
    using h1 h2 h3 branch_selection [OF h1, of 0] branch_selection [OF h2, of 0]
      branch_selection [OF h3, of 0]
    by simp
qed

text \<open>
  Claim C6 as stated says that only triples with an eigenvalue that is exactly zero are left
  without a branch. The six coefficients \<open>1, 1, 1, 0, 0, 0\<close> give the identity matrix, whose
  eigenvalues are \<open>1, 1, 1\<close>: none is zero, no branch is taken, and the call fails.
\<close>

theorem fall_through_without_zero_eigenvalue:
  "conic_eigen (snd (conic_polarForm jacobi_of_diagonal conic_example_positive 0 False conic_init))
      = Some ([[1, 0, 0], [0, 1, 0], [0, 0, 1]], identity3)
   \<and> fst (conic_polarForm jacobi_of_diagonal conic_example_positive 0 False conic_init) = Inl TypeError"
  by (simp add: conic_polarForm_def update_positive conic_branch_def Let_def)

text \<open>
  Claim C9, amended. When the first eigenvalue returned by the eigensolver is negative, the
  update negates the three eigenvalues together, which makes the first one positive, and
  stores as \<^verbatim>\<open>rotationMatrix\<close> the eigenvector matrix exactly as the eigensolver returned it:
  no row or column of it is negated.
\<close>

theorem eigenvalues_negated_eigenvectors_kept:
  assumes "mat3 (fst (Jacobi (conic_buildM inp (conic_M s))))"
    and "fst (Jacobi (conic_buildM inp (conic_M s))) ! 0 ! 0 < 0"
  shows "conic_rotationMatrix (snd (conic_polarForm Jacobi inp phi False s))
           = snd (Jacobi (conic_buildM inp (conic_M s)))
       \<and> conic_eigen (snd (conic_polarForm Jacobi inp phi False s))
           = Some (scaleEigenvalues (fst (Jacobi (conic_buildM inp (conic_M s)))),
                   snd (Jacobi (conic_buildM inp (conic_M s))))
       \<and> 0 < scaleEigenvalues (fst (Jacobi (conic_buildM inp (conic_M s)))) ! 0 ! 0
       \<and> scaleEigenvalues (fst (Jacobi (conic_buildM inp (conic_M s)))) ! 0 ! 0
           = - (fst (Jacobi (conic_buildM inp (conic_M s))) ! 0 ! 0)
       \<and> scaleEigenvalues (fst (Jacobi (conic_buildM inp (conic_M s)))) ! 1 ! 1
           = - (fst (Jacobi (conic_buildM inp (conic_M s))) ! 1 ! 1)
       \<and> scaleEigenvalues (fst (Jacobi (conic_buildM inp (conic_M s)))) ! 2 ! 2
           = - (fst (Jacobi (conic_buildM inp (conic_M s))) ! 2 ! 2)"
proof -
  have "conic_rotationMatrix (snd (conic_polarForm Jacobi inp phi False s))
           = snd (Jacobi (conic_buildM inp (conic_M s)))"
    by (simp add: snd_conic_polarForm conic_update_def Let_def)
  moreover have "conic_eigen (snd (conic_polarForm Jacobi inp phi False s))
           = Some (scaleEigenvalues (fst (Jacobi (conic_buildM inp (conic_M s)))),
                   snd (Jacobi (conic_buildM inp (conic_M s))))"
    by (simp add: snd_conic_polarForm conic_eigen_update)
  ultimately show ?thesis
    using assms(2) scaleEigenvalues_diag [OF assms(1)] by simp
qed

theorem eigenvalues_negated_eigenvectors_kept_witness:
  "mat3 (fst (jacobi_of_diagonal (conic_buildM conic_example_negative (conic_M conic_init))))
   \<and> fst (jacobi_of_diagonal (conic_buildM conic_example_negative (conic_M conic_init))) ! 0 ! 0 < 0
   \<and> conic_rotationMatrix
        (snd (conic_polarForm jacobi_of_diagonal conic_example_negative 0 False conic_init))
        = identity3
   \<and> conic_eigen (snd (conic_polarForm jacobi_of_diagonal conic_example_negative 0 False conic_init))
        = Some ([[1, 0, 0], [0, - 1, 0], [0, 0, - 1]], identity3)"
proof -
  have M: "conic_M conic_init = identity3" by (simp add: conic_init_def)
  have h1: "mat3 (fst (jacobi_of_diagonal (conic_buildM conic_example_negative (conic_M conic_init))))"
    by (simp add: M buildM_negative jacobi_of_diagonal_def mat3_def)
  have h2: "fst (jacobi_of_diagonal (conic_buildM conic_example_negative (conic_M conic_init))) ! 0 ! 0 < 0"
    by (simp add: M buildM_negative jacobi_of_diagonal_def)
  show ?thesis
    using h1 h2 eigenvalues_negated_eigenvectors_kept
      [where Jacobi = jacobi_of_diagonal and inp = conic_example_negative and s = conic_init and phi = 0]
    by (simp add: M buildM_negative jacobi_of_diagonal_def scaleEigenvalues_literal)
qed

text \<open>
  Claim C9 as stated has the eigenvector row of \<^verbatim>\<open>rotationMatrix\<close> negated. For the unit
  circle given by the coefficients \<open>1, 1, -1, 0, 0, 0\<close> the first eigenvalue is \<open>-1\<close> and the
  eigenvectors are the unit vectors; after the update \<^verbatim>\<open>rotationMatrix\<close> is still the
  identity, not the identity with its first row (or column) negated.
\<close>

theorem eigenvector_row_not_flipped:
  "fst (jacobi_of_diagonal (conic_buildM conic_example_negative (conic_M conic_init))) ! 0 ! 0 < 0
   \<and> snd (jacobi_of_diagonal (conic_buildM conic_example_negative (conic_M conic_init)))
        = [[1, 0, 0], [0, 1, 0], [0, 0, 1]]
   \<and> conic_rotationMatrix
        (snd (conic_polarForm jacobi_of_diagonal conic_example_negative 0 False conic_init))
        = [[1, 0, 0], [0, 1, 0], [0, 0, 1]]
   \<and> conic_rotationMatrix
        (snd (conic_polarForm jacobi_of_diagonal conic_example_negative 0 False conic_init))
        \<noteq> [[- 1, 0, 0], [0, 1, 0], [0, 0, 1]]"
proof -
  have M: "conic_M conic_init = identity3" by (simp add: conic_init_def)
  have 1: "fst (jacobi_of_diagonal (conic_buildM conic_example_negative (conic_M conic_init))) ! 0 ! 0 < 0"
    by (simp add: M buildM_negative jacobi_of_diagonal_def)
  have 2: "snd (jacobi_of_diagonal (conic_buildM conic_example_negative (conic_M conic_init)))
             = identity3"
    by (simp add: jacobi_of_diagonal_def)
  have 3: "conic_rotationMatrix
             (snd (conic_polarForm jacobi_of_diagonal conic_example_negative 0 False conic_init))
             = identity3"
    by (simp add: snd_conic_polarForm update_negative)
  show ?thesis
    unfolding 2 3 using 1 by (simp add: identity3_def)
qed

section \<open>Suspended evaluations and the live inputs\<close>

lemma axes_example_moved:
  "ellipse_majorAxis ellipse_example_moved = 4"
  "hyperbola_majorAxis ellipse_example_moved = 4"
  "hyperbola_majorAxis ellipse_example = 4"
  "Dist (foc_F1 ellipse_example_moved) (foc_F0 ellipse_example_moved) = 2"
  by (simp_all add: ellipse_majorAxis_def hyperbola_majorAxis_def Dist_def ellipse_example_def
        ellipse_example_moved_def pX_def pY_def)

lemma axes_example_long:
  "ellipse_majorAxis ellipse_example_long = 6"
  "Dist (foc_F1 ellipse_example_long) (foc_F0 ellipse_example_long) = 2"
  by (simp_all add: ellipse_majorAxis_def Dist_def ellipse_example_long_def pX_def pY_def)

lemma ellipse_example_updated:
  "snd (ellipse_polarForm ellipse_example phi False focal_init) =
     \<lparr>rotationMatrix = Some [[1, 0, 0], [1, 1, 0], [0, 0, 1]],
      quadraticform = quadraticform (snd (ellipse_polarForm ellipse_example phi False focal_init))\<rparr>"
  by (simp add: ellipse_polarForm_def Let_def transformFunc_example focal_init_def)

lemma parabola_example_fields:
  "par_F1 parabola_example = [1, 0, 1]" "par_stdform parabola_example = [1, 0, 1]"
  "par_slope parabola_example = Some 0"
  by (simp_all add: parabola_example_def)

lemma parabola_M_example: "parabola_M meetLineLine_cross parabola_example = [1, 0, - 1]"
  by (simp add: parabola_M_def parabola_example_fields meetLineLine_cross_def crossProduct_def Let_def)

lemma parabola_e_example: "parabola_e meetLineLine_cross parabola_example = 1"
  by (simp add: parabola_e_def parabola_M_example Let_def usrX_def usrY_def Dist_def pX_def pY_def
        parabola_example_fields)

lemma parabola_transformFunc_example:
  "parabola_transformFunc meetLineLine_cross parabola_example = [[1, 0, 0], [0, 1, 0], [0, 0, 1]]"
  by (simp add: parabola_transformFunc_def parabola_M_example Let_def usrX_def usrY_def
        atan_slope_def parabola_example_fields)

text \<open>
  Claim C8, amended. For the general conic a suspended evaluation depends on the cached
  state and \<open>phi\<close> only: two such calls return the same, whatever the eigensolver, the points
  or the coefficients are by then. For the ellipse, the hyperbola and the parabola only the
  rotation matrix is taken from the cache: the scalars of the parametrisation are computed
  from the live inputs at every call, suspended or not, so two suspended calls on the same
  cached state return the same when the live inputs give the same scalars (the major axis
  and the distance of the foci; for the parabola \<open>e\<close> and the two coordinate sums).
\<close>

theorem suspended_call_live_scalars:
  "conic_polarForm Jacobi cinp phi True cs = conic_polarForm Jacobi' cinp' phi True cs
   \<and> (ellipse_majorAxis inp = ellipse_majorAxis inp'
        \<and> Dist (foc_F1 inp) (foc_F0 inp) = Dist (foc_F1 inp') (foc_F0 inp')
      \<longrightarrow> ellipse_polarForm inp phi True s = ellipse_polarForm inp' phi True s)
   \<and> (hyperbola_majorAxis inp = hyperbola_majorAxis inp'
        \<and> Dist (foc_F1 inp) (foc_F0 inp) = Dist (foc_F1 inp') (foc_F0 inp')
      \<longrightarrow> hyperbola_polarForm inp phi True s = hyperbola_polarForm inp' phi True s)
   \<and> (parabola_e meetLineLine pinp = parabola_e meetLineLine' pinp'
        \<and> usrX (parabola_M meetLineLine pinp) + usrX (par_F1 pinp)
            = usrX (parabola_M meetLineLine' pinp') + usrX (par_F1 pinp')
        \<and> usrY (parabola_M meetLineLine pinp) + usrY (par_F1 pinp)
            = usrY (parabola_M meetLineLine' pinp') + usrY (par_F1 pinp')
      \<longrightarrow> parabola_polarForm meetLineLine pinp phi True s
            = parabola_polarForm meetLineLine' pinp' phi True s)"
  by (simp add: conic_polarForm_def ellipse_polarForm_def hyperbola_polarForm_def
        parabola_polarForm_def Let_def split: option.splits)

theorem suspended_call_live_scalars_witness:
  "ellipse_majorAxis ellipse_example = ellipse_majorAxis ellipse_example_moved
   \<and> Dist (foc_F1 ellipse_example) (foc_F0 ellipse_example)
       = Dist (foc_F1 ellipse_example_moved) (foc_F0 ellipse_example_moved)
   \<and> hyperbola_majorAxis ellipse_example = hyperbola_majorAxis ellipse_example_moved
   \<and> foc_F0 ellipse_example \<noteq> foc_F0 ellipse_example_moved
   \<and> ellipse_polarForm ellipse_example 0 True
        (snd (ellipse_polarForm ellipse_example 0 False focal_init))
       = ellipse_polarForm ellipse_example_moved 0 True
          (snd (ellipse_polarForm ellipse_example 0 False focal_init))
   \<and> hyperbola_polarForm ellipse_example 0 True
        (snd (hyperbola_polarForm ellipse_example 0 False focal_init))
       = hyperbola_polarForm ellipse_example_moved 0 True
          (snd (hyperbola_polarForm ellipse_example 0 False focal_init))
   \<and> parabola_polarForm meetLineLine_cross parabola_example 0 True
        (snd (parabola_polarForm meetLineLine_cross parabola_example 0 False focal_init))
       = parabola_polarForm meetLineLine_cross parabola_example 0 True
          (snd (parabola_polarForm meetLineLine_cross parabola_example 0 False focal_init))"
proof -
  have h: "ellipse_majorAxis ellipse_example = ellipse_majorAxis ellipse_example_moved"
      "Dist (foc_F1 ellipse_example) (foc_F0 ellipse_example)
         = Dist (foc_F1 ellipse_example_moved) (foc_F0 ellipse_example_moved)"
      "hyperbola_majorAxis ellipse_example = hyperbola_majorAxis ellipse_example_moved"
    by (simp_all add: axes_example axes_example_moved)
  have d: "foc_F0 ellipse_example \<noteq> foc_F0 ellipse_example_moved"
    by (simp add: ellipse_example_def ellipse_example_moved_def)
  show ?thesis
    using h d
      suspended_call_live_scalars
        [where inp = ellipse_example and inp' = ellipse_example_moved and phi = 0
           and s = "snd (ellipse_polarForm ellipse_example 0 False focal_init)"
           and pinp = parabola_example and pinp' = parabola_example
           and meetLineLine = meetLineLine_cross and meetLineLine' = meetLineLine_cross]
      suspended_call_live_scalars
        [where inp = ellipse_example and inp' = ellipse_example_moved and phi = 0
           and s = "snd (hyperbola_polarForm ellipse_example 0 False focal_init)"
           and pinp = parabola_example and pinp' = parabola_example
           and meetLineLine = meetLineLine_cross and meetLineLine' = meetLineLine_cross]
    by simp
qed

text \<open>
  Claim C8 as stated says that a suspended call does not see the live inputs. After one
  update of the ellipse with foci \<open>(0, 0)\<close>, \<open>(2, 0)\<close> and major axis 4, a suspended call at
  \<open>phi = 0\<close> returns \<open>(1, 3, 0)\<close> while the major axis still is 4 and \<open>(1, 4, 0)\<close> once the
  major axis has become 6, on the same cached state.
\<close>

theorem suspended_ellipse_follows_live_axis:
  "fst (ellipse_polarForm ellipse_example 0 True
          (snd (ellipse_polarForm ellipse_example 0 False focal_init))) = Inr [1, 3, 0]
   \<and> fst (ellipse_polarForm ellipse_example_long 0 True
          (snd (ellipse_polarForm ellipse_example 0 False focal_init))) = Inr [1, 4, 0]
   \<and> fst (ellipse_polarForm ellipse_example 0 True
          (snd (ellipse_polarForm ellipse_example 0 False focal_init)))
       \<noteq> fst (ellipse_polarForm ellipse_example_long 0 True
          (snd (ellipse_polarForm ellipse_example 0 False focal_init)))"
proof -
  define s1 where "s1 = snd (ellipse_polarForm ellipse_example 0 False focal_init)"
  have R: "rotationMatrix s1 = Some [[1, 0, 0], [1, 1, 0], [0, 0, 1]]"
    unfolding s1_def by (subst ellipse_example_updated) simp
  have 1: "fst (ellipse_polarForm ellipse_example 0 True s1) = Inr [1, 3, 0]"
    by (simp add: ellipse_polarForm_def Let_def R axes_example apply_rotation_def
          matVecMult_def innerProduct_def upt_0_3)
  have 2: "fst (ellipse_polarForm ellipse_example_long 0 True s1) = Inr [1, 4, 0]"
    by (simp add: ellipse_polarForm_def Let_def R axes_example_long apply_rotation_def
          matVecMult_def innerProduct_def upt_0_3)
  show ?thesis
    unfolding s1_def [symmetric] 1 2 by simp
qed

section \<open>The ellipse evaluator\<close>

lemma spec_similarity_literal:
  "spec_similarity inp =
     [[1, 0, 0],
      [(pX (foc_F0 inp) + pX (foc_F1 inp)) / 2, cos (spec_angle inp), - sin (spec_angle inp)],
      [(pY (foc_F0 inp) + pY (foc_F1 inp)) / 2, sin (spec_angle inp), cos (spec_angle inp)]]"
  by (simp add: spec_similarity_def translation3_def rotation3_def matMatMult_def upt_0_3)

lemma transformFunc_similarity: "transformFunc inp = spec_similarity inp"
  by (simp add: transformFunc_def spec_similarity_literal spec_angle_def midpoint_X_def midpoint_Y_def Let_def)

lemma code_e_spec: "Dist (foc_F1 inp) (foc_F0 inp) * 0.5 = spec_e inp"
  by (simp add: Dist_def spec_e_def power2_eq_square)

lemma code_a_spec: "ellipse_majorAxis inp * 0.5 = spec_a inp"
  by (simp add: spec_a_def)

lemma code_b_spec: "sqrt (spec_a inp * spec_a inp - spec_e inp * spec_e inp) = spec_b inp"
  by (simp add: spec_b_def power2_eq_square)

lemma spec_example:
  "spec_a ellipse_example = 2" "spec_e ellipse_example = 1" "spec_b ellipse_example = sqrt 3"
  "spec_angle ellipse_example = 0"
proof -
  show a: "spec_a ellipse_example = 2" by (simp add: spec_a_def axes_example)
  show e: "spec_e ellipse_example = 1"
    using code_e_spec [of ellipse_example] by (simp add: axes_example)
  show "spec_b ellipse_example = sqrt 3" by (simp add: spec_b_def a e)
  show "spec_angle ellipse_example = 0"
    by (simp add: spec_angle_def ellipse_example_def pX_def pY_def atan2_def Let_def)
qed

text \<open>
  Claim C7. For an ellipse with \<open>a \<ge> e\<close>, where \<open>a\<close> is half the major axis and \<open>e\<close> half
  the distance of the foci, an evaluation with recompute returns the rotation matrix applied
  to \<open>(1, a\<cdot>cos \<phi>, b\<cdot>sin \<phi>)\<close> with \<open>b = sqrt(a\<^sup>2 - e\<^sup>2)\<close>, and the rotation matrix it stores and
  uses is the rotation by the angle of the segment of the foci followed by the translation
  to their midpoint. The angle is \<open>atan2(\<Delta>y, \<Delta>x)\<close>, plus \<open>\<pi>\<close> when \<open>\<Delta>x < 0\<close>, and a quarter
  turn up or down when \<open>|\<Delta>x| \<le> 1e-7\<close>. The result is written out by components, and \<open>b\<close>
  is the non-negative root.
\<close>

theorem ellipse_evaluation:
  assumes "spec_e inp \<le> spec_a inp"
  shows "fst (ellipse_polarForm inp phi False s) =
           Inr (matVecMult (spec_similarity inp) [1, spec_a inp * cos phi, spec_b inp * sin phi])
       \<and> rotationMatrix (snd (ellipse_polarForm inp phi False s)) = Some (spec_similarity inp)
       \<and> matVecMult (spec_similarity inp) [1, spec_a inp * cos phi, spec_b inp * sin phi] =
           [1,
            (pX (foc_F0 inp) + pX (foc_F1 inp)) / 2
              + cos (spec_angle inp) * (spec_a inp * cos phi)
              - sin (spec_angle inp) * (spec_b inp * sin phi),
            (pY (foc_F0 inp) + pY (foc_F1 inp)) / 2
              + sin (spec_angle inp) * (spec_a inp * cos phi)
              + cos (spec_angle inp) * (spec_b inp * sin phi)]
       \<and> 0 \<le> spec_b inp
       \<and> (spec_b inp)\<^sup>2 = (spec_a inp)\<^sup>2 - (spec_e inp)\<^sup>2"
proof -
  have st: "rotationMatrix (snd (ellipse_polarForm inp phi False s)) = Some (spec_similarity inp)"
    by (simp add: ellipse_polarForm_def Let_def transformFunc_similarity)
  have "fst (ellipse_polarForm inp phi False s) =
          Inr (matVecMult (transformFunc inp)
                 [1, ellipse_majorAxis inp * 0.5 * cos phi,
                  sqrt (ellipse_majorAxis inp * 0.5 * (ellipse_majorAxis inp * 0.5)
                        - Dist (foc_F1 inp) (foc_F0 inp) * 0.5 * (Dist (foc_F1 inp) (foc_F0 inp) * 0.5))
                    * sin phi])"
    by (simp add: ellipse_polarForm_def Let_def apply_rotation_def)
  then have res: "fst (ellipse_polarForm inp phi False s) =
           Inr (matVecMult (spec_similarity inp) [1, spec_a inp * cos phi, spec_b inp * sin phi])"
    unfolding code_a_spec code_e_spec code_b_spec transformFunc_similarity .
  have comp: "matVecMult (spec_similarity inp) [1, spec_a inp * cos phi, spec_b inp * sin phi] =
           [1,
            (pX (foc_F0 inp) + pX (foc_F1 inp)) / 2
              + cos (spec_angle inp) * (spec_a inp * cos phi)
              - sin (spec_angle inp) * (spec_b inp * sin phi),
            (pY (foc_F0 inp) + pY (foc_F1 inp)) / 2
              + sin (spec_angle inp) * (spec_a inp * cos phi)
              + cos (spec_angle inp) * (spec_b inp * sin phi)]"
    by (simp add: spec_similarity_literal matVecMult_def innerProduct_def upt_0_3)
  have "0 \<le> spec_e inp" by (simp add: spec_e_def)
  with assms have "(spec_e inp)\<^sup>2 \<le> (spec_a inp)\<^sup>2" by (simp add: power_mono)
  then have b: "0 \<le> spec_b inp" "(spec_b inp)\<^sup>2 = (spec_a inp)\<^sup>2 - (spec_e inp)\<^sup>2"
    by (simp_all add: spec_b_def)
  show ?thesis using res st comp b by simp
qed

theorem ellipse_evaluation_witness:
  "spec_e ellipse_example \<le> spec_a ellipse_example
   \<and> fst (ellipse_polarForm ellipse_example 0 False focal_init) = Inr [1, 3, 0]
   \<and> fst (ellipse_polarForm ellipse_example (pi / 2) False focal_init) = Inr [1, 1, sqrt 3]"
proof -
  have h: "spec_e ellipse_example \<le> spec_a ellipse_example" by (simp add: spec_example)
  have m: "pX (foc_F0 ellipse_example) = 0" "pX (foc_F1 ellipse_example) = 2"
          "pY (foc_F0 ellipse_example) = 0" "pY (foc_F1 ellipse_example) = 0"
    by (simp_all add: ellipse_example_def pX_def pY_def)
  show ?thesis
    using h ellipse_evaluation [OF h, of 0 focal_init] ellipse_evaluation [OF h, of "pi / 2" focal_init]
    by (simp add: spec_example m)
qed

section \<open>The parabola evaluator\<close>

lemma fst_component: "fst (component k r) = (case fst r of Inl e \<Rightarrow> Inl e | Inr v \<Rightarrow> Inr (v ! k))"
  by (simp add: component_def split: sum.splits)

lemma matVecMult_length: "length (matVecMult A u) = 3"
  by (simp add: matVecMult_def)

lemma matVecMult_unit_row: "A ! 0 = [1, 0, 0] \<Longrightarrow> matVecMult A u ! 0 = u ! 0"
  by (simp add: matVecMult_def innerProduct_def upt_0_3)

lemma normalize_w_first: "length v = 3 \<Longrightarrow> normalize_w v ! 0 = 1"
  by (simp add: normalize_w_def Let_def)

lemma conic_branch_length: "conic_branch st E phi = Some w \<Longrightarrow> length w = 3"
  by (auto simp add: conic_branch_def matVecMult_length split: if_splits)

lemma conic_result_normalised:
  assumes "fst (conic_polarForm Jacobi inp phi suspendUpdate s) = Inr u"
  shows "u ! 0 = 1"
  using assms
  by (auto simp add: conic_polarForm_def Let_def normalize_w_first
        dest!: conic_branch_length split: option.splits if_splits)

text \<open>
  Claim C10. With \<open>e\<close> half the distance from \<open>M\<close> to the focus and \<open>a\<close>, \<open>b\<close> the means of
  the coordinates of \<open>M\<close> and the focus, the parabola's evaluator returns the rotation matrix
  applied to \<open>(4e, 4e\<cdot>(t + a), t\<^sup>2 + 4e\<cdot>b)\<close> as it is. After an update the first component
  of the result is \<open>4e\<close>; \<^verbatim>\<open>curve.X\<close> and \<^verbatim>\<open>curve.Y\<close> return its second and third components,
  which for \<open>e \<noteq> 0\<close> are \<open>4e\<close> times the affine coordinates of the point. A suspended call
  does the same with the stored rotation matrix, and the first component of its result is
  \<open>4e\<close> again when the first row of that matrix is \<open>(1, 0, 0)\<close>, as it is in every matrix an
  update stores. The general conic, in contrast, returns a vector whose first component is 1
  whenever it returns one.
\<close>

theorem parabola_result_not_normalised:
  "(let e = parabola_e meetLineLine inp;
        a = (usrX (parabola_M meetLineLine inp) + usrX (par_F1 inp)) * 0.5;
        b = (usrY (parabola_M meetLineLine inp) + usrY (par_F1 inp)) * 0.5;
        w = [e * 4, e * 4 * (t + a), t * t + b * (e * 4)];
        v = matVecMult (parabola_transformFunc meetLineLine inp) w
    in fst (parabola_polarForm meetLineLine inp t False s) = Inr v
     \<and> v ! 0 = 4 * e
     \<and> fst (parabola_X meetLineLine inp t False s) = Inr (v ! 1)
     \<and> fst (parabola_Y meetLineLine inp t False s) = Inr (v ! 2)
     \<and> (e \<noteq> 0 \<longrightarrow> v ! 1 = 4 * e * (v ! 1 / v ! 0) \<and> v ! 2 = 4 * e * (v ! 2 / v ! 0))
     \<and> (rotationMatrix s = Some R \<longrightarrow>
          fst (parabola_polarForm meetLineLine inp t True s) = Inr (matVecMult R w)
        \<and> fst (parabola_X meetLineLine inp t True s) = Inr (matVecMult R w ! 1)
        \<and> fst (parabola_Y meetLineLine inp t True s) = Inr (matVecMult R w ! 2)
        \<and> (R ! 0 = [1, 0, 0] \<longrightarrow> matVecMult R w ! 0 = 4 * e)))
   \<and> (fst (conic_polarForm Jacobi cinp phi suspendUpdate cs) = Inr u \<longrightarrow> u ! 0 = 1)"
proof -
  define e where "e = parabola_e meetLineLine inp"
  define a where "a = (usrX (parabola_M meetLineLine inp) + usrX (par_F1 inp)) * 0.5"
  define b where "b = (usrY (parabola_M meetLineLine inp) + usrY (par_F1 inp)) * 0.5"
  define w where "w = [e * 4, e * 4 * (t + a), t * t + b * (e * 4)]"
  define v where "v = matVecMult (parabola_transformFunc meetLineLine inp) w"
  have r: "fst (parabola_polarForm meetLineLine inp t False s) = Inr v"
    unfolding v_def w_def e_def a_def b_def
    by (simp add: parabola_polarForm_def Let_def apply_rotation_def)
  have "parabola_transformFunc meetLineLine inp ! 0 = [1, 0, 0]"
    by (simp add: parabola_transformFunc_def Let_def)
  then have v0: "v ! 0 = 4 * e"
    unfolding v_def by (simp add: matVecMult_unit_row w_def)
  have xy: "fst (parabola_X meetLineLine inp t False s) = Inr (v ! 1)"
           "fst (parabola_Y meetLineLine inp t False s) = Inr (v ! 2)"
    by (simp_all add: parabola_X_def parabola_Y_def fst_component r)
  have aff: "e \<noteq> 0 \<longrightarrow> v ! 1 = 4 * e * (v ! 1 / v ! 0) \<and> v ! 2 = 4 * e * (v ! 2 / v ! 0)"
    by (simp add: v0)
  have sus: "rotationMatrix s = Some R \<longrightarrow>
          fst (parabola_polarForm meetLineLine inp t True s) = Inr (matVecMult R w)"
    unfolding w_def e_def a_def b_def
    by (simp add: parabola_polarForm_def Let_def apply_rotation_def)
  then have susxy: "rotationMatrix s = Some R \<longrightarrow>
          fst (parabola_X meetLineLine inp t True s) = Inr (matVecMult R w ! 1)
        \<and> fst (parabola_Y meetLineLine inp t True s) = Inr (matVecMult R w ! 2)"
    by (simp add: parabola_X_def parabola_Y_def fst_component)
  have sus0: "R ! 0 = [1, 0, 0] \<longrightarrow> matVecMult R w ! 0 = 4 * e"
    by (simp add: matVecMult_unit_row w_def)
  have con: "fst (conic_polarForm Jacobi cinp phi suspendUpdate cs) = Inr u \<longrightarrow> u ! 0 = 1"
    using conic_result_normalised by blast
  show ?thesis
    unfolding Let_def e_def [symmetric] a_def [symmetric] b_def [symmetric] w_def [symmetric]
      v_def [symmetric]
    using r v0 xy aff sus susxy sus0 con by blast
qed

theorem parabola_result_not_normalised_witness:
  "parabola_e meetLineLine_cross parabola_example \<noteq> 0
   \<and> rotationMatrix (snd (parabola_polarForm meetLineLine_cross parabola_example 0 False focal_init))
        = Some identity3
   \<and> fst (parabola_polarForm meetLineLine_cross parabola_example 2 False focal_init) = Inr [4, 8, 4]
   \<and> fst (parabola_X meetLineLine_cross parabola_example 2 False focal_init) = Inr 8
   \<and> fst (parabola_Y meetLineLine_cross parabola_example 2 False focal_init) = Inr 4
   \<and> fst (parabola_polarForm meetLineLine_cross parabola_example 2 True
            (snd (parabola_polarForm meetLineLine_cross parabola_example 0 False focal_init)))
        = Inr [4, 8, 4]
   \<and> fst (conic_polarForm jacobi_of_diagonal conic_example_negative 0 False conic_init) = Inr [1, 1, 0]"
proof -
  have h1: "parabola_e meetLineLine_cross parabola_example \<noteq> 0" by (simp add: parabola_e_example)
  have h2: "rotationMatrix (snd (parabola_polarForm meetLineLine_cross parabola_example 0 False focal_init))
        = Some identity3"
    by (simp add: parabola_polarForm_def Let_def parabola_transformFunc_example identity3_def)
  have c: "fst (conic_polarForm jacobi_of_diagonal conic_example_negative 0 False conic_init) = Inr [1, 1, 0]"
    by (simp add: conic_polarForm_def update_negative conic_branch_def Let_def identity3_def
          matVecMult_def innerProduct_def upt_0_3 normalize_w_def)
  have mv: "matVecMult identity3 [4, 8, 4] = [4, 8, 4]"
    by (simp add: identity3_def matVecMult_def innerProduct_def upt_0_3)
  have F: "usrX (par_F1 parabola_example) = 0" "usrY (par_F1 parabola_example) = 1"
    by (simp_all add: parabola_example_fields usrX_def usrY_def)
  have M: "usrX [1, 0, - 1] = 0" "usrY [1, 0, - 1] = - 1"
    by (simp_all add: usrX_def usrY_def)
  show ?thesis
    using h1 h2 c
      parabola_result_not_normalised
        [where meetLineLine = meetLineLine_cross and inp = parabola_example and t = 2
           and s = focal_init and R = identity3 and Jacobi = jacobi_of_diagonal
           and cinp = conic_example_negative and phi = 0 and suspendUpdate = False
           and cs = conic_init and u = "[1, 1, 0]"]
      parabola_result_not_normalised
        [where meetLineLine = meetLineLine_cross and inp = parabola_example and t = 2
           and s = "snd (parabola_polarForm meetLineLine_cross parabola_example 0 False focal_init)"
           and R = identity3 and Jacobi = jacobi_of_diagonal
           and cinp = conic_example_negative and phi = 0 and suspendUpdate = False
           and cs = conic_init and u = "[1, 1, 0]"]
    by (simp add: Let_def parabola_e_example parabola_M_example parabola_transformFunc_example F M mv
          identity3_def [symmetric])
qed

end
